theory Spec2Isabelle
  imports Main
begin

section \<open>Host-language values: strings, numbers, 32-bit shifts\<close>

text \<open>
  A JavaScript string is a sequence of UTF-16 code units, each a number from 0 to 65535;
  positions, lengths and the results of \<^verbatim>\<open>indexOf\<close> are numbers and may be negative, so they are \<open>int\<close>.
  \<^verbatim>\<open>charCodeAt\<close> yields \<^verbatim>\<open>NaN\<close> outside the string, which is \<open>None\<close> here, and
  \<^verbatim>\<open>NaN\<close> compares unequal to everything, itself included.
\<close>

type_synonym jsstring = "int list"

definition charCodeAt :: "jsstring \<Rightarrow> int \<Rightarrow> int option" where
  "charCodeAt s i = (if 0 \<le> i \<and> i < int (length s) then Some (s ! nat i) else None)"

definition sameCode :: "int option \<Rightarrow> int option \<Rightarrow> bool" where
  "sameCode x y = (case x of None \<Rightarrow> False | Some u \<Rightarrow> (case y of None \<Rightarrow> False | Some v \<Rightarrow> u = v))"

text \<open>\<^verbatim>\<open>s.slice(start, stop)\<close>: negative arguments count from the end, both are clamped.\<close>

definition slice :: "jsstring \<Rightarrow> int \<Rightarrow> int \<Rightarrow> jsstring" where
  "slice s start stop =
     (let len = int (length s);
          lo = (if start < 0 then max (len + start) 0 else min start len);
          hi = (if stop < 0 then max (len + stop) 0 else min stop len)
      in take (nat (hi - lo)) (drop (nat lo) s))"

text \<open>\<^verbatim>\<open>s.slice(start)\<close>, to the end of the string.\<close>

definition sliceFrom :: "jsstring \<Rightarrow> int \<Rightarrow> jsstring" where
  "sliceFrom s start = slice s start (int (length s))"

text \<open>\<^verbatim>\<open>s.indexOf(seed, position)\<close>: the first match at or after the clamped position, or -1.\<close>

function indexOf_scan :: "jsstring \<Rightarrow> jsstring \<Rightarrow> nat \<Rightarrow> int" where
  "indexOf_scan s seed k =
     (if length s < k + length seed then - 1
      else if take (length seed) (drop k s) = seed then int k
      else indexOf_scan s seed (Suc k))"
  by pat_completeness auto
termination
  by (relation "measure (\<lambda>(s, seed, k). Suc (length s) - k)") auto

declare indexOf_scan.simps [simp del]

definition indexOfFrom :: "jsstring \<Rightarrow> jsstring \<Rightarrow> int \<Rightarrow> int" where
  "indexOfFrom s seed position = indexOf_scan s seed (nat (min (max position 0) (int (length s))))"

definition indexOf :: "jsstring \<Rightarrow> jsstring \<Rightarrow> int" where
  "indexOf s seed = indexOfFrom s seed 0"

text \<open>
  The shift operators convert their operand to a signed 32-bit integer first; the
  wrap-around is written out.
\<close>

definition toInt32 :: "int \<Rightarrow> int" where
  "toInt32 x = (x + 2147483648) mod 4294967296 - 2147483648"

definition shl1 :: "int \<Rightarrow> int" where
  "shl1 x = toInt32 (2 * x)"

definition shr1 :: "int \<Rightarrow> int" where
  "shr1 x = toInt32 x div 2"

section \<open>Changed ranges\<close>

datatype change = Change (fromA: int) (toA: int) (fromB: int) (toB: int)

definition offset :: "change \<Rightarrow> int \<Rightarrow> int \<Rightarrow> change" where
  "offset c offA offB = Change (fromA c + offA) (toA c + offA) (fromB c + offB) (toB c + offB)"

section \<open>Surrogate pairs\<close>

definition isSurrogate1 :: "int option \<Rightarrow> bool" where
  "isSurrogate1 code = (case code of None \<Rightarrow> False | Some c \<Rightarrow> 55296 \<le> c \<and> c \<le> 56319)"

definition isSurrogate2 :: "int option \<Rightarrow> bool" where
  "isSurrogate2 code = (case code of None \<Rightarrow> False | Some c \<Rightarrow> 56320 \<le> c \<and> c \<le> 57343)"

definition validIndex :: "jsstring \<Rightarrow> int \<Rightarrow> bool" where
  "validIndex s index =
     (index = 0 \<or> index = int (length s) \<or> \<not> isSurrogate1 (charCodeAt s (index - 1))
      \<or> \<not> isSurrogate2 (charCodeAt s index))"

section \<open>Common prefix and suffix\<close>

text \<open>
  The loops below have no bound of their own in the source (\<^verbatim>\<open>while (size < max)\<close>,
  \<^verbatim>\<open>for (;;)\<close>); each is a partial function, \<open>None\<close> standing for a run that never
  returns.
\<close>

partial_function (option) chunkSize_loop :: "int \<Rightarrow> int \<Rightarrow> int option" where
  "chunkSize_loop sz mx = (if sz < mx then chunkSize_loop (shl1 sz) mx else Some sz)"

declare chunkSize_loop.simps [code]

definition chunkSize :: "int \<Rightarrow> int \<Rightarrow> int option" where
  "chunkSize lenA lenB = chunkSize_loop 1 (min lenA lenB)"

partial_function (option) commonPrefix_loop ::
  "jsstring \<Rightarrow> int \<Rightarrow> int \<Rightarrow> jsstring \<Rightarrow> int \<Rightarrow> int \<Rightarrow> int \<Rightarrow> int \<Rightarrow> int option" where
  "commonPrefix_loop a fromA0 toA0 b toB0 chunk pA pB =
     (if pA + chunk > toA0 \<or> pB + chunk > toB0 \<or> slice a pA (pA + chunk) \<noteq> slice b pB (pB + chunk)
      then (if chunk = 1 then Some (pA - fromA0 - (if validIndex a pA then 0 else 1))
            else commonPrefix_loop a fromA0 toA0 b toB0 (shr1 chunk) pA pB)
      else if pA + chunk = toA0 \<or> pB + chunk = toB0 then Some (pA + chunk - fromA0)
      else commonPrefix_loop a fromA0 toA0 b toB0 chunk (pA + chunk) (pB + chunk))"

declare commonPrefix_loop.simps [code]

definition commonPrefix :: "jsstring \<Rightarrow> int \<Rightarrow> int \<Rightarrow> jsstring \<Rightarrow> int \<Rightarrow> int \<Rightarrow> int option" where
  "commonPrefix a fromA0 toA0 b fromB0 toB0 =
     (if fromA0 = toA0 \<or> fromA0 = toB0 \<or> \<not> sameCode (charCodeAt a fromA0) (charCodeAt b fromB0)
      then Some 0
      else (case chunkSize (toA0 - fromA0) (toB0 - fromB0) of
              None \<Rightarrow> None
            | Some chunk \<Rightarrow> commonPrefix_loop a fromA0 toA0 b toB0 chunk fromA0 fromB0))"

partial_function (option) commonSuffix_loop ::
  "jsstring \<Rightarrow> int \<Rightarrow> int \<Rightarrow> jsstring \<Rightarrow> int \<Rightarrow> int \<Rightarrow> int \<Rightarrow> int \<Rightarrow> int option" where
  "commonSuffix_loop a fromA0 toA0 b fromB0 chunk pA pB =
     (if pA - chunk < fromA0 \<or> pB - chunk < fromB0 \<or> slice a (pA - chunk) pA \<noteq> slice b (pB - chunk) pB
      then (if chunk = 1 then Some (toA0 - pA - (if validIndex a pA then 0 else 1))
            else commonSuffix_loop a fromA0 toA0 b fromB0 (shr1 chunk) pA pB)
      else if pA - chunk = fromA0 \<or> pB - chunk = fromB0 then Some (toA0 - (pA - chunk))
      else commonSuffix_loop a fromA0 toA0 b fromB0 chunk (pA - chunk) (pB - chunk))"

declare commonSuffix_loop.simps [code]

definition commonSuffix :: "jsstring \<Rightarrow> int \<Rightarrow> int \<Rightarrow> jsstring \<Rightarrow> int \<Rightarrow> int \<Rightarrow> int option" where
  "commonSuffix a fromA0 toA0 b fromB0 toB0 =
     (if fromA0 = toA0 \<or> fromB0 = toB0 \<or> \<not> sameCode (charCodeAt a (toA0 - 1)) (charCodeAt b (toB0 - 1))
      then Some 0
      else (case chunkSize (toA0 - fromA0) (toB0 - fromB0) of
              None \<Rightarrow> None
            | Some chunk \<Rightarrow> commonSuffix_loop a fromA0 toA0 b fromB0 chunk toA0 toB0))"

section \<open>Shared substrings\<close>

text \<open>
  \<^verbatim>\<open>findMatch\<close> tries substrings of \<open>a\<close> of length \<open>sz\<close> as seeds and looks them up in
  the range of \<open>b\<close>; \<open>best\<close> is \<^verbatim>\<open>null\<close> or the triple \<^verbatim>\<open>[startA, startB, length]\<close>.
  Its three nested loops are, from the inside: the occurrences of one seed, the seeds of
  one size, the sizes. The innermost loop, \<^verbatim>\<open>while ((found = rangeB.indexOf(seed, found + 1)) != -1)\<close>,
  is entered with the first occurrence already looked up, and looks up the next one at
  the end of its body.
\<close>

type_synonym match = "(int \<times> int \<times> int) option"

partial_function (option) findMatch_found ::
  "jsstring \<Rightarrow> int \<Rightarrow> int \<Rightarrow> jsstring \<Rightarrow> int \<Rightarrow> int \<Rightarrow> jsstring \<Rightarrow> jsstring \<Rightarrow> int \<Rightarrow> int
     \<Rightarrow> int \<Rightarrow> match \<Rightarrow> match option" where
  "findMatch_found a fromA0 toA0 b fromB0 toB0 rangeB seed start stop found best =
     (if found \<noteq> - 1
      then (case commonPrefix a stop toA0 b (fromB0 + found + int (length seed)) toB0 of
              None \<Rightarrow> None
            | Some prefixAfter \<Rightarrow>
               (case commonSuffix a fromA0 start b fromB0 (fromB0 + found) of
                  None \<Rightarrow> None
                | Some suffixBefore \<Rightarrow>
                    findMatch_found a fromA0 toA0 b fromB0 toB0 rangeB seed start stop
                      (indexOfFrom rangeB seed (found + 1))
                      (if (case best of None \<Rightarrow> True
                           | Some bst \<Rightarrow> snd (snd bst) < int (length seed) + prefixAfter + suffixBefore)
                       then Some (start - suffixBefore, fromB0 + found - suffixBefore,
                                  int (length seed) + prefixAfter + suffixBefore)
                       else best)))
      else Some best)"

declare findMatch_found.simps [code]

definition seedStart :: "jsstring \<Rightarrow> int \<Rightarrow> int" where
  "seedStart a start = (if \<not> validIndex a start then start + 1 else start)"

definition seedEnd :: "jsstring \<Rightarrow> int \<Rightarrow> int \<Rightarrow> int" where
  "seedEnd a start sz =
     (if \<not> validIndex a (start + sz)
      then start + sz + (if start + sz = start + 1 then 1 else - 1)
      else start + sz)"

partial_function (option) findMatch_starts ::
  "jsstring \<Rightarrow> int \<Rightarrow> int \<Rightarrow> jsstring \<Rightarrow> int \<Rightarrow> int \<Rightarrow> jsstring \<Rightarrow> int \<Rightarrow> int \<Rightarrow> match
     \<Rightarrow> match option" where
  "findMatch_starts a fromA0 toA0 b fromB0 toB0 rangeB sz start0 best =
     (if seedEnd a (seedStart a start0) sz \<ge> toA0 then Some best
      else (case findMatch_found a fromA0 toA0 b fromB0 toB0 rangeB
                   (slice a (seedStart a start0) (seedEnd a (seedStart a start0) sz))
                   (seedStart a start0) (seedEnd a (seedStart a start0) sz)
                   (indexOfFrom rangeB
                      (slice a (seedStart a start0) (seedEnd a (seedStart a start0) sz)) (- 1 + 1))
                   best of
              None \<Rightarrow> None
            | Some best' \<Rightarrow>
                findMatch_starts a fromA0 toA0 b fromB0 toB0 rangeB sz
                  (seedEnd a (seedStart a start0) sz) best'))"

declare findMatch_starts.simps [code]

partial_function (option) findMatch_sizes ::
  "jsstring \<Rightarrow> int \<Rightarrow> int \<Rightarrow> jsstring \<Rightarrow> int \<Rightarrow> int \<Rightarrow> jsstring \<Rightarrow> int \<Rightarrow> int \<Rightarrow> match
     \<Rightarrow> match option" where
  "findMatch_sizes a fromA0 toA0 b fromB0 toB0 rangeB sz divideTo best =
     (if best \<noteq> None \<or> sz < divideTo then Some best
      else (case findMatch_starts a fromA0 toA0 b fromB0 toB0 rangeB sz (fromA0 + sz) best of
              None \<Rightarrow> None
            | Some best' \<Rightarrow>
                if divideTo < 0 then Some best'
                else findMatch_sizes a fromA0 toA0 b fromB0 toB0 rangeB (shr1 sz) divideTo best'))"

declare findMatch_sizes.simps [code]

definition findMatch ::
  "jsstring \<Rightarrow> int \<Rightarrow> int \<Rightarrow> jsstring \<Rightarrow> int \<Rightarrow> int \<Rightarrow> int \<Rightarrow> int \<Rightarrow> match option" where
  "findMatch a fromA0 toA0 b fromB0 toB0 sz divideTo =
     findMatch_sizes a fromA0 toA0 b fromB0 toB0 (slice b fromB0 toB0) sz divideTo None"

definition swapMatch :: "match \<Rightarrow> match" where
  "swapMatch r = (case r of None \<Rightarrow> None | Some (x, y, l) \<Rightarrow> Some (y, x, l))"

function halfMatch :: "jsstring \<Rightarrow> int \<Rightarrow> int \<Rightarrow> jsstring \<Rightarrow> int \<Rightarrow> int \<Rightarrow> match option" where
  "halfMatch a fromA0 toA0 b fromB0 toB0 =
     (if toA0 - fromA0 < toB0 - fromB0
      then map_option swapMatch (halfMatch b fromB0 toB0 a fromA0 toA0)
      else if toA0 - fromA0 < 4 \<or> (toB0 - fromB0) * 2 < toA0 - fromA0 then Some None
      else findMatch a fromA0 toA0 b fromB0 toB0 ((toA0 - fromA0) div 4) (- 1))"
  by pat_completeness auto
termination
  by (relation "measure (\<lambda>(a, fromA0, toA0, b, fromB0, toB0).
        if toA0 - fromA0 < toB0 - fromB0 then 1 else 0)") auto

declare halfMatch.simps [simp del]

section \<open>The budget and the flags of one diff\<close>

text \<open>
  The module-level variables \<^verbatim>\<open>scanLimit\<close> and \<^verbatim>\<open>timeout\<close> are set once per call of
  \<^verbatim>\<open>diff\<close> and only read afterwards; together with the system clock they form the
  environment. \<open>clock n\<close> is the value of the \<open>n\<close>-th evaluation of \<^verbatim>\<open>Date.now()\<close>.
  The state that the engine writes is the flag \<^verbatim>\<open>crude\<close> and the number of clock
  readings taken so far.
\<close>

record diffEnv =
  scanLimit :: int
  timeout :: int
  clock :: "nat \<Rightarrow> int"

record diffState =
  crude :: bool
  ticks :: nat

text \<open>\<^verbatim>\<open>timeout > 0 && Date.now() > timeout\<close>: the clock is read only when a timeout is set.\<close>

definition timedOut :: "diffEnv \<Rightarrow> diffState \<Rightarrow> bool \<times> diffState" where
  "timedOut env st =
     (if timeout env > 0 then (clock env (ticks st) > timeout env, st\<lparr>ticks := Suc (ticks st)\<rparr>)
      else (False, st))"

section \<open>Myers frontiers\<close>

text \<open>
  A frontier holds, per diagonal, the furthest \<open>x\<close> reached. The vector is a sparse array:
  \<^verbatim>\<open>reset\<close> writes the slots below \<open>len\<close> and slot \<open>off + 1\<close>; any other slot holds
  whatever an earlier call left there. The model gives each search fresh vectors in which
  those other slots are unset, and a read of an unset slot ends the run with \<open>None\<close>, so
  that a result of the model never depends on what an earlier call left behind.
\<close>

record frontier =
  vec :: "int \<Rightarrow> int option"
  len :: int
  start :: int
  end' :: int

definition reset :: "int \<Rightarrow> frontier" where
  "reset off =
     \<lparr>vec = (\<lambda>i. if 0 \<le> i \<and> i < shl1 off then Some (- 1) else None)(off + 1 \<mapsto> 0),
      len = shl1 off, start = 0, end' = 0\<rparr>"

function snake :: "(int \<Rightarrow> int \<Rightarrow> bool) \<Rightarrow> int \<Rightarrow> int \<Rightarrow> int \<Rightarrow> int \<Rightarrow> int \<times> int" where
  "snake match lenX lenY x y =
     (if x < lenX \<and> y < lenY \<and> match x y then snake match lenX lenY (x + 1) (y + 1) else (x, y))"
  by pat_completeness auto
termination
  by (relation "measure (\<lambda>(match, lenX, lenY, x, y). nat (lenX - x))") auto

declare snake.simps [simp del]

text \<open>The start of diagonal \<open>k\<close>: from the neighbour above or the neighbour below.\<close>

definition diagStart :: "frontier \<Rightarrow> int \<Rightarrow> int \<Rightarrow> int \<Rightarrow> int option" where
  "diagStart f depth k off =
     (if k = - depth then vec f (off + 1)
      else if k \<noteq> depth
      then (case vec f (off - 1) of
              None \<Rightarrow> None
            | Some lo \<Rightarrow> (case vec f (off + 1) of
                           None \<Rightarrow> None
                         | Some hi \<Rightarrow> Some (if lo < hi then hi else lo + 1)))
      else map_option (\<lambda>lo. lo + 1) (vec f (off - 1)))"

function advance_loop ::
  "frontier \<Rightarrow> int \<Rightarrow> int \<Rightarrow> int \<Rightarrow> int \<Rightarrow> frontier option \<Rightarrow> bool \<Rightarrow> (int \<Rightarrow> int \<Rightarrow> bool) \<Rightarrow> int
     \<Rightarrow> ((int \<times> int) option \<times> frontier) option" where
  "advance_loop f depth lenX lenY vOff other fromBack match k =
     (if k \<le> depth - end' f
      then (case diagStart f depth k (vOff + k) of
              None \<Rightarrow> None
            | Some x0 \<Rightarrow>
               (case snake match lenX lenY x0 (x0 - k) of
                  (x, y) \<Rightarrow>
                    if x > lenX
                    then advance_loop (f\<lparr>vec := (vec f)(vOff + k \<mapsto> x), end' := end' f + 2\<rparr>)
                           depth lenX lenY vOff other fromBack match (k + 2)
                    else if y > lenY
                    then advance_loop (f\<lparr>vec := (vec f)(vOff + k \<mapsto> x), start := start f + 2\<rparr>)
                           depth lenX lenY vOff other fromBack match (k + 2)
                    else (case other of
                            None \<Rightarrow>
                              advance_loop (f\<lparr>vec := (vec f)(vOff + k \<mapsto> x)\<rparr>)
                                depth lenX lenY vOff other fromBack match (k + 2)
                          | Some oth \<Rightarrow>
                              if vOff + (lenX - lenY) - k \<ge> 0 \<and> vOff + (lenX - lenY) - k < len f
                              then (case vec oth (vOff + (lenX - lenY) - k) of
                                      None \<Rightarrow> None
                                    | Some xo \<Rightarrow>
                                        if xo \<noteq> - 1 \<and> \<not> fromBack \<and> x \<ge> lenX - xo
                                        then Some (Some (x, y), f\<lparr>vec := (vec f)(vOff + k \<mapsto> x)\<rparr>)
                                        else if xo \<noteq> - 1 \<and> fromBack \<and> xo \<ge> lenX - x
                                        then Some (Some (xo, vOff + xo - (vOff + (lenX - lenY) - k)),
                                                   f\<lparr>vec := (vec f)(vOff + k \<mapsto> x)\<rparr>)
                                        else advance_loop (f\<lparr>vec := (vec f)(vOff + k \<mapsto> x)\<rparr>)
                                               depth lenX lenY vOff other fromBack match (k + 2))
                              else advance_loop (f\<lparr>vec := (vec f)(vOff + k \<mapsto> x)\<rparr>)
                                     depth lenX lenY vOff other fromBack match (k + 2))))
      else Some (None, f))"
  by pat_completeness auto
termination
  by (relation "measure (\<lambda>(f, depth, lenX, lenY, vOff, other, fromBack, match, k).
        nat (depth - end' f - k + 1))") auto

declare advance_loop.simps [simp del]

definition advance ::
  "frontier \<Rightarrow> int \<Rightarrow> int \<Rightarrow> int \<Rightarrow> int \<Rightarrow> frontier option \<Rightarrow> bool \<Rightarrow> (int \<Rightarrow> int \<Rightarrow> bool)
     \<Rightarrow> ((int \<times> int) option \<times> frontier) option" where
  "advance f depth lenX lenY vOff other fromBack match =
     advance_loop f depth lenX lenY vOff other fromBack match (- depth + start f)"

section \<open>The recursive diff\<close>

text \<open>
  \<^verbatim>\<open>findDiff\<close>, \<^verbatim>\<open>findSnake\<close>, \<^verbatim>\<open>bisect\<close> and \<^verbatim>\<open>crudeMatch\<close> call each other. Each
  takes the function to use for the recursive calls of \<^verbatim>\<open>findDiff\<close> as its first
  argument; \<open>findDiff\<close> itself is indexed by the depth of recursion it may use, and
  \<open>None\<close> is a run that needs more (or one that never returns, or reads an unset
  frontier slot).
\<close>

type_synonym diffResult = "(change list \<times> diffState) option"

type_synonym differ = "diffState \<Rightarrow> int \<Rightarrow> int \<Rightarrow> int \<Rightarrow> int \<Rightarrow> diffResult"

text \<open>\<^verbatim>\<open>findDiff(a, fromA, splitA, b, fromB, splitB).concat(findDiff(a, splitA', toA, b, splitB', toB))\<close>\<close>

definition concatDiffs ::
  "differ \<Rightarrow> diffState \<Rightarrow> int \<Rightarrow> int \<Rightarrow> int \<Rightarrow> int \<Rightarrow> int \<Rightarrow> int \<Rightarrow> int \<Rightarrow> int \<Rightarrow> diffResult" where
  "concatDiffs rec st fromA1 toA1 fromB1 toB1 fromA2 toA2 fromB2 toB2 =
     (case rec st fromA1 toA1 fromB1 toB1 of
        None \<Rightarrow> None
      | Some (left, st1) \<Rightarrow>
          (case rec st1 fromA2 toA2 fromB2 toB2 of
             None \<Rightarrow> None
           | Some (right, st2) \<Rightarrow> Some (left @ right, st2)))"

definition bisect ::
  "differ \<Rightarrow> diffState \<Rightarrow> jsstring \<Rightarrow> int \<Rightarrow> int \<Rightarrow> int \<Rightarrow> jsstring \<Rightarrow> int \<Rightarrow> int \<Rightarrow> int \<Rightarrow> diffResult" where
  "bisect rec st a fromA0 toA0 splitA b fromB0 toB0 splitB =
     (let splitA' = (if \<not> validIndex a splitA then splitA + 1 else splitA);
          splitB' = (if \<not> validIndex b splitB then splitB + 1 else splitB);
          stop = ((\<not> validIndex a splitA \<and> splitA + 1 = toA0)
                  \<or> (\<not> validIndex b splitB \<and> splitB + 1 = toB0))
      in if stop then Some ([Change fromA0 toA0 fromB0 toB0], st)
         else concatDiffs rec st fromA0 splitA' fromB0 splitB' splitA' toA0 splitB' toB0)"

definition crudeMatch ::
  "differ \<Rightarrow> diffState \<Rightarrow> jsstring \<Rightarrow> int \<Rightarrow> int \<Rightarrow> jsstring \<Rightarrow> int \<Rightarrow> int \<Rightarrow> diffResult" where
  "crudeMatch rec st a fromA0 toA0 b fromB0 toB0 =
     (case (if toA0 - fromA0 < toB0 - fromB0
            then map_option swapMatch
                   (findMatch b fromB0 toB0 a fromA0 toA0 ((toA0 - fromA0) div 6) 50)
            else findMatch a fromA0 toA0 b fromB0 toB0 ((toB0 - fromB0) div 6) 50) of
        None \<Rightarrow> None
      | Some None \<Rightarrow> Some ([Change fromA0 toA0 fromB0 toB0], st\<lparr>crude := True\<rparr>)
      | Some (Some (sharedA, sharedB, sharedLen)) \<Rightarrow>
          concatDiffs rec (st\<lparr>crude := True\<rparr>) fromA0 sharedA fromB0 sharedB
            (sharedA + sharedLen) toA0 (sharedB + sharedLen) toB0)"

text \<open>
  The two budget tests of \<^verbatim>\<open>findSnake\<close>: on entry,
  \<^verbatim>\<open>scanLimit < 1e9 && Math.min(lenA, lenB) > scanLimit * 16 || timeout > 0 && Date.now() > timeout\<close>,
  and at each depth,
  \<^verbatim>\<open>depth > scanLimit || timeout > 0 && !(depth & 63) && Date.now() > timeout\<close>.
\<close>

definition entryBudgetExceeded :: "diffEnv \<Rightarrow> diffState \<Rightarrow> int \<Rightarrow> int \<Rightarrow> bool \<times> diffState" where
  "entryBudgetExceeded env st lenA lenB =
     (if scanLimit env < 1000000000 \<and> min lenA lenB > scanLimit env * 16 then (True, st)
      else timedOut env st)"

definition depthBudgetExceeded :: "diffEnv \<Rightarrow> diffState \<Rightarrow> int \<Rightarrow> bool \<times> diffState" where
  "depthBudgetExceeded env st depth =
     (if depth > scanLimit env then (True, st)
      else if timeout env > 0 \<and> depth mod 64 = 0 then timedOut env st
      else (False, st))"

definition match1 :: "jsstring \<Rightarrow> int \<Rightarrow> jsstring \<Rightarrow> int \<Rightarrow> int \<Rightarrow> int \<Rightarrow> bool" where
  "match1 a fromA0 b fromB0 x y = sameCode (charCodeAt a (fromA0 + x)) (charCodeAt b (fromB0 + y))"

definition match2 :: "jsstring \<Rightarrow> int \<Rightarrow> jsstring \<Rightarrow> int \<Rightarrow> int \<Rightarrow> int \<Rightarrow> bool" where
  "match2 a toA0 b toB0 x y = sameCode (charCodeAt a (toA0 - x - 1)) (charCodeAt b (toB0 - y - 1))"

function findSnake_loop ::
  "differ \<Rightarrow> diffEnv \<Rightarrow> diffState \<Rightarrow> jsstring \<Rightarrow> int \<Rightarrow> int \<Rightarrow> jsstring \<Rightarrow> int \<Rightarrow> int \<Rightarrow> int
     \<Rightarrow> frontier \<Rightarrow> frontier \<Rightarrow> int \<Rightarrow> diffResult" where
  "findSnake_loop rec env st a fromA0 toA0 b fromB0 toB0 off frontier1 frontier2 depth =
     (if depth < off
      then (case depthBudgetExceeded env st depth of
              (True, st1) \<Rightarrow> crudeMatch rec st1 a fromA0 toA0 b fromB0 toB0
            | (False, st1) \<Rightarrow>
               (case advance frontier1 depth (toA0 - fromA0) (toB0 - fromB0) off
                       (if ((toA0 - fromA0) - (toB0 - fromB0)) mod 2 \<noteq> 0 then Some frontier2 else None)
                       False (match1 a fromA0 b fromB0) of
                  None \<Rightarrow> None
                | Some (Some (x, y), f1) \<Rightarrow>
                    bisect rec st1 a fromA0 toA0 (fromA0 + x) b fromB0 toB0 (fromB0 + y)
                | Some (None, f1) \<Rightarrow>
                   (case advance frontier2 depth (toA0 - fromA0) (toB0 - fromB0) off
                           (if ((toA0 - fromA0) - (toB0 - fromB0)) mod 2 \<noteq> 0 then None else Some f1)
                           True (match2 a toA0 b toB0) of
                      None \<Rightarrow> None
                    | Some (Some (x, y), f2) \<Rightarrow>
                        bisect rec st1 a fromA0 toA0 (fromA0 + x) b fromB0 toB0 (fromB0 + y)
                    | Some (None, f2) \<Rightarrow>
                        findSnake_loop rec env st1 a fromA0 toA0 b fromB0 toB0 off f1 f2 (depth + 1))))
      else Some ([Change fromA0 toA0 fromB0 toB0], st))"
  by pat_completeness auto
termination
  by (relation "measure (\<lambda>(rec, env, st, a, fromA0, toA0, b, fromB0, toB0, off, f1, f2, depth).
        nat (off - depth))") auto

declare findSnake_loop.simps [simp del]

definition findSnake ::
  "differ \<Rightarrow> diffEnv \<Rightarrow> diffState \<Rightarrow> jsstring \<Rightarrow> int \<Rightarrow> int \<Rightarrow> jsstring \<Rightarrow> int \<Rightarrow> int \<Rightarrow> diffResult" where
  "findSnake rec env st a fromA0 toA0 b fromB0 toB0 =
     (case entryBudgetExceeded env st (toA0 - fromA0) (toB0 - fromB0) of
        (True, st1) \<Rightarrow>
          if min (toA0 - fromA0) (toB0 - fromB0) > scanLimit env * 64
          then Some ([Change fromA0 toA0 fromB0 toB0], st1)
          else crudeMatch rec st1 a fromA0 toA0 b fromB0 toB0
      | (False, st1) \<Rightarrow>
          findSnake_loop rec env st1 a fromA0 toA0 b fromB0 toB0
            (((toA0 - fromA0) + (toB0 - fromB0) + 1) div 2)
            (reset (((toA0 - fromA0) + (toB0 - fromB0) + 1) div 2))
            (reset (((toA0 - fromA0) + (toB0 - fromB0) + 1) div 2)) 0)"

text \<open>
  \<^verbatim>\<open>findDiff\<close> after the common prefix and suffix have been taken off the ranges, in
  two parts: the cases that are answered on the spot (one side empty, one side contained
  in the other, one unit left on a side), and the split of the problem by a half match
  or by the general search.
\<close>

definition findDiff_direct ::
  "jsstring \<Rightarrow> int \<Rightarrow> int \<Rightarrow> jsstring \<Rightarrow> int \<Rightarrow> int \<Rightarrow> change list option" where
  "findDiff_direct a fromA1 toA1 b fromB1 toB1 =
     (let lenA = toA1 - fromA1; lenB = toB1 - fromB1;
          foundB = indexOf (slice a fromA1 toA1) (slice b fromB1 toB1);
          foundA = indexOf (slice b fromB1 toB1) (slice a fromA1 toA1)
      in if lenA = 0 \<or> lenB = 0 then Some [Change fromA1 toA1 fromB1 toB1]
         else if lenA > lenB \<and> foundB > - 1
         then Some [Change fromA1 (fromA1 + foundB) fromB1 fromB1,
                    Change (fromA1 + foundB + lenB) toA1 toB1 toB1]
         else if \<not> lenA > lenB \<and> lenB > lenA \<and> foundA > - 1
         then Some [Change fromA1 fromA1 fromB1 (fromB1 + foundA),
                    Change toA1 toA1 (fromB1 + foundA + lenA) toB1]
         else if lenA = 1 \<or> lenB = 1 then Some [Change fromA1 toA1 fromB1 toB1]
         else None)"

definition findDiff_split ::
  "differ \<Rightarrow> diffEnv \<Rightarrow> diffState \<Rightarrow> jsstring \<Rightarrow> int \<Rightarrow> int \<Rightarrow> jsstring \<Rightarrow> int \<Rightarrow> int \<Rightarrow> diffResult" where
  "findDiff_split rec env st a fromA1 toA1 b fromB1 toB1 =
     (case halfMatch a fromA1 toA1 b fromB1 toB1 of
        None \<Rightarrow> None
      | Some (Some (sharedA, sharedB, sharedLen)) \<Rightarrow>
          concatDiffs rec st fromA1 sharedA fromB1 sharedB
            (sharedA + sharedLen) toA1 (sharedB + sharedLen) toB1
      | Some None \<Rightarrow> findSnake rec env st a fromA1 toA1 b fromB1 toB1)"

definition findDiff_middle ::
  "differ \<Rightarrow> diffEnv \<Rightarrow> diffState \<Rightarrow> jsstring \<Rightarrow> int \<Rightarrow> int \<Rightarrow> jsstring \<Rightarrow> int \<Rightarrow> int \<Rightarrow> diffResult" where
  "findDiff_middle rec env st a fromA1 toA1 b fromB1 toB1 =
     (case findDiff_direct a fromA1 toA1 b fromB1 toB1 of
        Some changes \<Rightarrow> Some (changes, st)
      | None \<Rightarrow> findDiff_split rec env st a fromA1 toA1 b fromB1 toB1)"

definition findDiff_body ::
  "differ \<Rightarrow> diffEnv \<Rightarrow> diffState \<Rightarrow> jsstring \<Rightarrow> int \<Rightarrow> int \<Rightarrow> jsstring \<Rightarrow> int \<Rightarrow> int \<Rightarrow> diffResult" where
  "findDiff_body rec env st a fromA0 toA0 b fromB0 toB0 =
     (if a = b then Some ([], st)
      else (case commonPrefix a fromA0 toA0 b fromB0 toB0 of
              None \<Rightarrow> None
            | Some prefix \<Rightarrow>
               (case commonSuffix a (fromA0 + prefix) toA0 b (fromB0 + prefix) toB0 of
                  None \<Rightarrow> None
                | Some suffix \<Rightarrow>
                    findDiff_middle rec env st a (fromA0 + prefix) (toA0 - suffix)
                      b (fromB0 + prefix) (toB0 - suffix))))"

primrec findDiff ::
  "nat \<Rightarrow> diffEnv \<Rightarrow> diffState \<Rightarrow> jsstring \<Rightarrow> int \<Rightarrow> int \<Rightarrow> jsstring \<Rightarrow> int \<Rightarrow> int \<Rightarrow> diffResult" where
  "findDiff 0 env st a fromA0 toA0 b fromB0 toB0 =
     findDiff_body (\<lambda>st' fA tA fB tB. None) env st a fromA0 toA0 b fromB0 toB0"
| "findDiff (Suc n) env st a fromA0 toA0 b fromB0 toB0 =
     findDiff_body (\<lambda>st' fA tA fB tB. findDiff n env st' a fA tA b fB tB)
       env st a fromA0 toA0 b fromB0 toB0"

section \<open>Normalising a list of changes\<close>

text \<open>
  \<^verbatim>\<open>mergeAdjacent\<close> works in place: when it merges the changes at \<open>i - 1\<close> and \<open>i\<close> it
  stores the merged change at \<open>i - 1\<close>, removes the element at \<open>i\<close> and looks at the same
  index again. The loop starts at index 1 and its index never goes below 1. Two
  neighbours are merged when the gap between them is below \<open>minGap\<close> on both sides.
\<close>

definition tooClose :: "int \<Rightarrow> change \<Rightarrow> change \<Rightarrow> bool" where
  "tooClose minGap prev cur = (toA prev > fromA cur - minGap \<and> toB prev > fromB cur - minGap)"

function mergeAdjacent_loop :: "change list \<Rightarrow> int \<Rightarrow> nat \<Rightarrow> change list" where
  "mergeAdjacent_loop changes minGap i =
     (if 0 < i \<and> i < length changes
      then (if tooClose minGap (changes ! (i - 1)) (changes ! i)
            then mergeAdjacent_loop
                   (take (i - 1) changes
                    @ [Change (fromA (changes ! (i - 1))) (toA (changes ! i))
                         (fromB (changes ! (i - 1))) (toB (changes ! i))]
                    @ drop (Suc i) changes) minGap i
            else mergeAdjacent_loop changes minGap (Suc i))
      else changes)"
  by pat_completeness auto
termination
  by (relation "measure (\<lambda>(changes, minGap, i). 2 * length changes - i)") auto

declare mergeAdjacent_loop.simps [simp del]

definition mergeAdjacent :: "change list \<Rightarrow> int \<Rightarrow> change list" where
  "mergeAdjacent changes minGap = mergeAdjacent_loop changes minGap 1"

text \<open>Strip a prefix and a suffix that the two sides of one change still share.\<close>

definition stripChange :: "jsstring \<Rightarrow> jsstring \<Rightarrow> change \<Rightarrow> change option" where
  "stripChange a b ch =
     (case commonPrefix a (fromA ch) (toA ch) b (fromB ch) (toB ch) of
        None \<Rightarrow> None
      | Some pre \<Rightarrow>
          (let ch1 = (if pre \<noteq> 0 then Change (fromA ch + pre) (toA ch) (fromB ch + pre) (toB ch) else ch)
           in case commonSuffix a (fromA ch1) (toA ch1) b (fromB ch1) (toB ch1) of
                None \<Rightarrow> None
              | Some post \<Rightarrow>
                  Some (if post \<noteq> 0
                        then Change (fromA ch1) (toA ch1 - post) (fromB ch1) (toB ch1 - post)
                        else ch1)))"

text \<open>
  Slide a plain insertion or deletion across unchanged text next to it. The result is
  the change to store at index \<open>i\<close> and whether it moved.
\<close>

definition slideChange :: "jsstring \<Rightarrow> jsstring \<Rightarrow> change list \<Rightarrow> nat \<Rightarrow> change \<Rightarrow> change \<times> bool" where
  "slideChange a b changes i ch =
     (let lenA = toA ch - fromA ch; lenB = toB ch - fromB ch;
          beforeLen = fromA ch - (if i \<noteq> 0 then toA (changes ! (i - 1)) else 0);
          afterLen = (if int i < int (length changes) - 1 then fromA (changes ! (i + 1))
                      else int (length a)) - toA ch;
          text = (if lenA \<noteq> 0 then slice a (fromA ch) (toA ch) else slice b (fromB ch) (toB ch))
      in if lenA \<noteq> 0 \<and> lenB \<noteq> 0 then (ch, False)
         else if beforeLen = 0 \<or> afterLen = 0 then (ch, False)
         else if beforeLen \<le> int (length text)
                 \<and> slice a (fromA ch - beforeLen) (fromA ch)
                    = sliceFrom text (int (length text) - beforeLen)
         then (Change (fromA ch - beforeLen) (toA ch - beforeLen)
                 (fromB ch - beforeLen) (toB ch - beforeLen), True)
         else if afterLen \<le> int (length text)
                 \<and> slice a (toA ch) (toA ch + afterLen) = slice text 0 afterLen
         then (Change (fromA ch + afterLen) (toA ch + afterLen)
                 (fromB ch + afterLen) (toB ch + afterLen), True)
         else (ch, False))"

function normalize_pass ::
  "jsstring \<Rightarrow> jsstring \<Rightarrow> change list \<Rightarrow> nat \<Rightarrow> bool \<Rightarrow> (change list \<times> bool) option" where
  "normalize_pass a b changes i moved =
     (if i < length changes
      then (case stripChange a b (changes ! i) of
              None \<Rightarrow> None
            | Some ch \<Rightarrow>
                (case slideChange a b (changes[i := ch]) i ch of
                   (ch', moved') \<Rightarrow>
                     normalize_pass a b (changes[i := ch']) (Suc i) (moved \<or> moved')))
      else Some (changes, moved))"
  by pat_completeness auto
termination
  by (relation "measure (\<lambda>(a, b, changes, i, moved). length changes - i)") auto

declare normalize_pass.simps [simp del]

partial_function (option) normalize_loop :: "jsstring \<Rightarrow> jsstring \<Rightarrow> change list \<Rightarrow> change list option" where
  "normalize_loop a b changes =
     (case normalize_pass a b (mergeAdjacent changes 1) 0 False of
        None \<Rightarrow> None
      | Some (changes', moved) \<Rightarrow> if moved then normalize_loop a b changes' else Some changes')"

declare normalize_loop.simps [code]

section \<open>The diff of two strings\<close>

text \<open>
  The configuration object and each of its fields may be absent. \<^verbatim>\<open>diff\<close> sets the
  module-level budget from it, clears \<^verbatim>\<open>crude\<close>, and reads the clock once when a
  non-zero timeout is given.
\<close>

record diffConfig =
  cfg_scanLimit :: "int option"
  cfg_timeout :: "int option"

definition diffEnvOf :: "(nat \<Rightarrow> int) \<Rightarrow> diffState \<Rightarrow> diffConfig \<Rightarrow> diffEnv" where
  "diffEnvOf clk st config =
     \<lparr>scanLimit = shr1 (case cfg_scanLimit config of None \<Rightarrow> 1000000000 | Some n \<Rightarrow> n),
      timeout = (case cfg_timeout config of
                   None \<Rightarrow> 0
                 | Some t \<Rightarrow> if t \<noteq> 0 then clk (ticks st) + t else 0),
      clock = clk\<rparr>"

definition diffStart :: "diffState \<Rightarrow> diffConfig \<Rightarrow> diffState" where
  "diffStart st config =
     \<lparr>crude = False,
      ticks = (case cfg_timeout config of
                 None \<Rightarrow> ticks st
               | Some t \<Rightarrow> if t \<noteq> 0 then Suc (ticks st) else ticks st)\<rparr>"

definition diff ::
  "nat \<Rightarrow> (nat \<Rightarrow> int) \<Rightarrow> diffState \<Rightarrow> jsstring \<Rightarrow> jsstring \<Rightarrow> diffConfig \<Rightarrow> diffResult" where
  "diff fuel clk st a b config =
     (case findDiff fuel (diffEnvOf clk st config) (diffStart st config)
             a 0 (int (length a)) b 0 (int (length b)) of
        None \<Rightarrow> None
      | Some (changes, st1) \<Rightarrow>
          (case normalize_loop a b changes of
             None \<Rightarrow> None
           | Some changes' \<Rightarrow> Some (changes', st1)))"

definition diffIsPrecise :: "diffState \<Rightarrow> bool" where
  "diffIsPrecise st = (\<not> crude st)"

section \<open>Presentation: word and line boundaries\<close>

text \<open>
  The regular expression \<^verbatim>\<open>[\p{Alphabetic}\p{Number}]\<close> is a Unicode table of the
  host; it is a parameter \<open>wordChar\<close>, a test on strings of one or two code units, and
  \<open>None\<close> when the host could not build the expression. It is consulted only for code
  units from 192 on.
\<close>

type_synonym wordTest = "(jsstring \<Rightarrow> bool) option"

definition asciiWordChar :: "int \<Rightarrow> bool" where
  "asciiWordChar code =
     (code > 48 \<and> code < 58 \<or> code > 64 \<and> code < 91 \<or> code > 96 \<and> code < 123)"

text \<open>\<^verbatim>\<open>String.fromCharCode\<close> of one number; \<^verbatim>\<open>NaN\<close> gives the code unit 0.\<close>

definition fromCharCode :: "int option \<Rightarrow> jsstring" where
  "fromCharCode code = (case code of None \<Rightarrow> [0] | Some c \<Rightarrow> [c mod 65536])"

definition wordCharAfter :: "wordTest \<Rightarrow> jsstring \<Rightarrow> int \<Rightarrow> int" where
  "wordCharAfter wordChar s pos =
     (if pos = int (length s) then 0
      else (case charCodeAt s pos of
              Some next \<Rightarrow>
                if next < 192 then (if asciiWordChar next then 1 else 0)
                else (case wordChar of
                        None \<Rightarrow> 0
                      | Some test \<Rightarrow>
                          if \<not> isSurrogate1 (Some next) \<or> pos = int (length s) - 1
                          then (if test (fromCharCode (Some next)) then 1 else 0)
                          else (if test (slice s pos (pos + 2)) then 2 else 0))
            | None \<Rightarrow>
                (case wordChar of
                   None \<Rightarrow> 0
                 | Some test \<Rightarrow> if test (fromCharCode None) then 1 else 0)))"

definition wordCharBefore :: "wordTest \<Rightarrow> jsstring \<Rightarrow> int \<Rightarrow> int" where
  "wordCharBefore wordChar s pos =
     (if pos = 0 then 0
      else (case charCodeAt s (pos - 1) of
              Some prev \<Rightarrow>
                if prev < 192 then (if asciiWordChar prev then 1 else 0)
                else (case wordChar of
                        None \<Rightarrow> 0
                      | Some test \<Rightarrow>
                          if \<not> isSurrogate2 (Some prev) \<or> pos = 1
                          then (if test (fromCharCode (Some prev)) then 1 else 0)
                          else (if test (slice s (pos - 2) pos) then 2 else 0))
            | None \<Rightarrow>
                (case wordChar of
                   None \<Rightarrow> 0
                 | Some test \<Rightarrow> if test (fromCharCode None) then 1 else 0)))"

definition MAX_SCAN :: nat where
  "MAX_SCAN = 8"

function findWordBoundaryAfter_loop ::
  "wordTest \<Rightarrow> jsstring \<Rightarrow> int \<Rightarrow> int \<Rightarrow> int \<Rightarrow> nat \<Rightarrow> int" where
  "findWordBoundaryAfter_loop wordChar s pos stop cur i =
     (if i < MAX_SCAN
      then (if wordCharAfter wordChar s cur = 0 \<or> cur + wordCharAfter wordChar s cur > stop then cur
            else findWordBoundaryAfter_loop wordChar s pos stop
                   (cur + wordCharAfter wordChar s cur) (Suc i))
      else pos)"
  by pat_completeness auto
termination
  by (relation "measure (\<lambda>(wordChar, s, pos, stop, cur, i). MAX_SCAN - i)") auto

declare findWordBoundaryAfter_loop.simps [simp del]

definition findWordBoundaryAfter :: "wordTest \<Rightarrow> jsstring \<Rightarrow> int \<Rightarrow> int \<Rightarrow> int" where
  "findWordBoundaryAfter wordChar s pos mx =
     (if pos = int (length s) \<or> wordCharBefore wordChar s pos = 0 then pos
      else findWordBoundaryAfter_loop wordChar s pos (pos + mx) pos 0)"

function findWordBoundaryBefore_loop ::
  "wordTest \<Rightarrow> jsstring \<Rightarrow> int \<Rightarrow> int \<Rightarrow> int \<Rightarrow> nat \<Rightarrow> int" where
  "findWordBoundaryBefore_loop wordChar s pos stop cur i =
     (if i < MAX_SCAN
      then (if wordCharBefore wordChar s cur = 0 \<or> cur - wordCharBefore wordChar s cur < stop then cur
            else findWordBoundaryBefore_loop wordChar s pos stop
                   (cur - wordCharBefore wordChar s cur) (Suc i))
      else pos)"
  by pat_completeness auto
termination
  by (relation "measure (\<lambda>(wordChar, s, pos, stop, cur, i). MAX_SCAN - i)") auto

declare findWordBoundaryBefore_loop.simps [simp del]

definition findWordBoundaryBefore :: "wordTest \<Rightarrow> jsstring \<Rightarrow> int \<Rightarrow> int \<Rightarrow> int" where
  "findWordBoundaryBefore wordChar s pos mx =
     (if pos = 0 \<or> wordCharAfter wordChar s pos = 0 then pos
      else findWordBoundaryBefore_loop wordChar s pos (pos - mx) pos 0)"

partial_function (option) findLineBreakBefore :: "jsstring \<Rightarrow> int \<Rightarrow> int \<Rightarrow> int option" where
  "findLineBreakBefore s pos stop =
     (if pos \<noteq> stop
      then (if sameCode (charCodeAt s (pos - 1)) (Some 10) then Some pos
            else findLineBreakBefore s (pos - 1) stop)
      else Some (- 1))"

declare findLineBreakBefore.simps [code]

partial_function (option) findLineBreakAfter :: "jsstring \<Rightarrow> int \<Rightarrow> int \<Rightarrow> int option" where
  "findLineBreakAfter s pos stop =
     (if pos \<noteq> stop
      then (if sameCode (charCodeAt s pos) (Some 10) then Some pos
            else findLineBreakAfter s (pos + 1) stop)
      else Some (- 1))"

declare findLineBreakAfter.simps [code]

text \<open>
  An insertion or deletion that lies inside a word on both sides is moved to a word
  boundary when the text it skips is the same. The result is the change with the two
  boundaries as the source leaves them in \<^verbatim>\<open>boundBefore\<close> and \<^verbatim>\<open>boundAfter\<close>.
\<close>

definition alignToWord ::
  "wordTest \<Rightarrow> jsstring \<Rightarrow> jsstring \<Rightarrow> int \<Rightarrow> int \<Rightarrow> change \<Rightarrow> change \<times> int \<times> int" where
  "alignToWord wordChar a b posA nextChangeA change =
     (let lenA = toA change - fromA change; lenB = toB change - fromB change;
          boundBefore = findWordBoundaryBefore wordChar a (fromA change) (fromA change - posA);
          boundAfter = findWordBoundaryAfter wordChar a (toA change) (nextChangeA - toA change);
          lenBefore = fromA change - boundBefore; lenAfter = boundAfter - toA change;
          changeLen = max lenA lenB;
          changeText = (if lenA \<noteq> 0 then a else b);
          changeFrom = (if lenA \<noteq> 0 then fromA change else fromB change);
          changeTo = (if lenA \<noteq> 0 then toA change else toB change)
      in if (lenA = 0 \<or> lenB = 0) \<and> lenBefore \<noteq> 0 \<and> lenAfter \<noteq> 0
         then (if changeLen > lenBefore
                  \<and> slice a boundBefore (fromA change) = slice changeText (changeTo - lenBefore) changeTo
               then (Change boundBefore (boundBefore + lenA) (fromB change - lenBefore)
                       (toB change - lenBefore),
                     boundBefore,
                     findWordBoundaryAfter wordChar a (boundBefore + lenA)
                       (nextChangeA - (boundBefore + lenA)))
               else if changeLen > lenAfter
                  \<and> slice a (toA change) boundAfter = slice changeText changeFrom (changeFrom + lenAfter)
               then (Change (boundAfter - lenA) boundAfter (fromB change + lenAfter)
                       (toB change + lenAfter),
                     findWordBoundaryBefore wordChar a (boundAfter - lenA) (boundAfter - lenA - posA),
                     boundAfter)
               else (change, boundBefore, boundAfter))
         else (change, boundBefore, boundAfter))"

text \<open>Align a plain insertion (in \<open>b\<close>) or deletion (in \<open>a\<close>) to a line break.\<close>

definition alignInsertion :: "jsstring \<Rightarrow> change \<Rightarrow> int \<Rightarrow> int \<Rightarrow> change option" where
  "alignInsertion b change maxScanBefore maxScanAfter =
     (case findLineBreakAfter b (fromB change) (toB change) of
        None \<Rightarrow> None
      | Some firstBr \<Rightarrow>
          (case (if firstBr < 0 then Some (- 1) else findLineBreakBefore b (toB change) (fromB change)) of
             None \<Rightarrow> None
           | Some lastBr \<Rightarrow>
               Some (if firstBr > - 1 \<and> firstBr - fromB change \<le> maxScanAfter
                        \<and> slice b (fromB change) firstBr
                           = slice b (toB change) (toB change + (firstBr - fromB change))
                     then offset change (firstBr - fromB change) (firstBr - fromB change)
                     else if lastBr > - 1 \<and> toB change - lastBr \<le> maxScanBefore
                        \<and> slice b (fromB change - (toB change - lastBr)) (fromB change)
                           = slice b lastBr (toB change)
                     then offset change (- (toB change - lastBr)) (- (toB change - lastBr))
                     else change)))"

definition alignDeletion :: "jsstring \<Rightarrow> change \<Rightarrow> int \<Rightarrow> int \<Rightarrow> change option" where
  "alignDeletion a change maxScanBefore maxScanAfter =
     (case findLineBreakAfter a (fromA change) (toA change) of
        None \<Rightarrow> None
      | Some firstBr \<Rightarrow>
          (case (if firstBr < 0 then Some (- 1) else findLineBreakBefore a (toA change) (fromA change)) of
             None \<Rightarrow> None
           | Some lastBr \<Rightarrow>
               Some (if firstBr > - 1 \<and> firstBr - fromA change \<le> maxScanAfter
                        \<and> slice a (fromA change) firstBr
                           = slice a (toA change) (toA change + (firstBr - fromA change))
                     then offset change (firstBr - fromA change) (firstBr - fromA change)
                     else if lastBr > - 1 \<and> toA change - lastBr \<le> maxScanBefore
                        \<and> slice a (fromA change - (toA change - lastBr)) (fromA change)
                           = slice a lastBr (toA change)
                     then offset change (- (toA change - lastBr)) (- (toA change - lastBr))
                     else change)))"

text \<open>The body of the loop of \<^verbatim>\<open>makePresentable\<close> for one change.\<close>

definition presentChange ::
  "wordTest \<Rightarrow> jsstring \<Rightarrow> jsstring \<Rightarrow> int \<Rightarrow> int \<Rightarrow> change \<Rightarrow> change option" where
  "presentChange wordChar a b posA nextChangeA change =
     (let lenA = toA change - fromA change; lenB = toB change - fromB change
      in if lenA \<noteq> 0 \<and> lenB \<noteq> 0 \<or> lenA > 3 \<or> lenB > 3
         then (case alignToWord wordChar a b posA nextChangeA change of
                 (change1, boundBefore, boundAfter) \<Rightarrow>
                   if fromA change1 - boundBefore \<noteq> 0 \<or> boundAfter - toA change1 \<noteq> 0
                   then Some (Change (fromA change1 - (fromA change1 - boundBefore))
                                (toA change1 + (boundAfter - toA change1))
                                (fromB change1 - (fromA change1 - boundBefore))
                                (toB change1 + (boundAfter - toA change1)))
                   else if lenA = 0
                   then alignInsertion b change1 (fromA change - posA) (nextChangeA - toA change)
                   else if lenB = 0
                   then alignDeletion a change1 (fromA change - posA) (nextChangeA - toA change)
                   else Some change1)
         else Some change)"

function makePresentable_loop ::
  "wordTest \<Rightarrow> jsstring \<Rightarrow> jsstring \<Rightarrow> change list \<Rightarrow> int \<Rightarrow> nat \<Rightarrow> change list option" where
  "makePresentable_loop wordChar a b changes posA i =
     (if i < length changes
      then (case presentChange wordChar a b posA
                   (if int i = int (length changes) - 1 then int (length a)
                    else fromA (changes ! (i + 1)))
                   (changes ! i) of
              None \<Rightarrow> None
            | Some change \<Rightarrow>
                makePresentable_loop wordChar a b (changes[i := change]) (toA change) (Suc i))
      else Some changes)"
  by pat_completeness auto
termination
  by (relation "measure (\<lambda>(wordChar, a, b, changes, posA, i). length changes - i)") auto

declare makePresentable_loop.simps [simp del]

definition makePresentable ::
  "wordTest \<Rightarrow> change list \<Rightarrow> jsstring \<Rightarrow> jsstring \<Rightarrow> change list option" where
  "makePresentable wordChar changes a b =
     map_option (\<lambda>changes'. mergeAdjacent changes' 3) (makePresentable_loop wordChar a b changes 0 0)"

definition presentableDiff ::
  "nat \<Rightarrow> (nat \<Rightarrow> int) \<Rightarrow> wordTest \<Rightarrow> diffState \<Rightarrow> jsstring \<Rightarrow> jsstring \<Rightarrow> diffConfig \<Rightarrow> diffResult" where
  "presentableDiff fuel clk wordChar st a b config =
     (case diff fuel clk st a b config of
        None \<Rightarrow> None
      | Some (changes, st1) \<Rightarrow>
          (case makePresentable wordChar changes a b of
             None \<Rightarrow> None
           | Some changes' \<Rightarrow> Some (changes', st1)))"

section \<open>Documents\<close>

text \<open>
  A document is the host editor's \<^verbatim>\<open>Text\<close>: here the string that \<^verbatim>\<open>toString()\<close>
  yields, its lines separated by the code unit 10.
\<close>

datatype error = RangeError | NoResult

text \<open>
  Modelled from the spec: the document operations \<^verbatim>\<open>lineAt\<close> (``line containing
  offset'') and \<^verbatim>\<open>sliceString\<close> (``random-access substring slicing'') belong to the host
  editor's \<^verbatim>\<open>Text\<close> class, which is not part of the sources. \<open>lineAt\<close> gives the start
  and the end of the line that contains the position, the end being the position of the
  line break or the length of the document; a position outside the document is an error.
  \<open>sliceString\<close> clips both positions to the document.
\<close>

definition lineAt :: "jsstring \<Rightarrow> int \<Rightarrow> error + (int \<times> int)" where
  "lineAt doc pos =
     (if pos < 0 \<or> pos > int (length doc) then Inl RangeError
      else Inr (pos - int (length (takeWhile (\<lambda>c. c \<noteq> 10) (rev (take (nat pos) doc)))),
                pos + int (length (takeWhile (\<lambda>c. c \<noteq> 10) (drop (nat pos) doc)))))"

definition sliceString :: "jsstring \<Rightarrow> int \<Rightarrow> int \<Rightarrow> jsstring" where
  "sliceString doc from to =
     (let lo = max 0 (min (int (length doc)) from);
          hi = max lo (min (int (length doc)) to)
      in take (nat (hi - lo)) (drop (nat lo) doc))"

section \<open>Chunks\<close>

datatype chunk = Chunk (changes: "change list") (chunk_fromA: int) (chunk_toA: int)
  (chunk_fromB: int) (chunk_toB: int) (precise: bool)

definition offsetChunk :: "chunk \<Rightarrow> int \<Rightarrow> int \<Rightarrow> chunk" where
  "offsetChunk c offA offB =
     (if offA \<noteq> 0 \<or> offB \<noteq> 0
      then Chunk (changes c) (chunk_fromA c + offA) (chunk_toA c + offA)
             (chunk_fromB c + offB) (chunk_toB c + offB) (precise c)
      else c)"

definition endA :: "chunk \<Rightarrow> int" where
  "endA c = max (chunk_fromA c) (chunk_toA c - 1)"

definition endB :: "chunk \<Rightarrow> int" where
  "endB c = max (chunk_fromB c) (chunk_toB c - 1)"

definition fromLine :: "int \<Rightarrow> int \<Rightarrow> jsstring \<Rightarrow> jsstring \<Rightarrow> error + (int \<times> int)" where
  "fromLine fromA0 fromB0 a b =
     (case lineAt a fromA0 of
        Inl e \<Rightarrow> Inl e
      | Inr lineA \<Rightarrow>
          (case lineAt b fromB0 of
             Inl e \<Rightarrow> Inl e
           | Inr lineB \<Rightarrow>
               Inr (if snd lineA = fromA0 \<and> snd lineB = fromB0
                       \<and> fromA0 < int (length a) \<and> fromB0 < int (length b)
                    then (fromA0 + 1, fromB0 + 1) else (fst lineA, fst lineB))))"

definition toLine :: "int \<Rightarrow> int \<Rightarrow> jsstring \<Rightarrow> jsstring \<Rightarrow> error + (int \<times> int)" where
  "toLine toA0 toB0 a b =
     (case lineAt a toA0 of
        Inl e \<Rightarrow> Inl e
      | Inr lineA \<Rightarrow>
          (case lineAt b toB0 of
             Inl e \<Rightarrow> Inl e
           | Inr lineB \<Rightarrow>
               Inr (if fst lineA = toA0 \<and> fst lineB = toB0 then (toA0, toB0)
                    else (snd lineA + 1, snd lineB + 1))))"

text \<open>
  The inner loop of \<^verbatim>\<open>toChunks\<close>: take further changes into the chunk that starts at
  \<open>(startA, startB)\<close> while the next change begins on a line that touches it. The result
  is the index of the last change taken, the changes of the chunk and its end.
\<close>

function toChunks_extend ::
  "change list \<Rightarrow> jsstring \<Rightarrow> jsstring \<Rightarrow> int \<Rightarrow> int \<Rightarrow> int \<Rightarrow> int \<Rightarrow> nat \<Rightarrow> change list \<Rightarrow> int \<Rightarrow> int
     \<Rightarrow> error + (nat \<times> change list \<times> int \<times> int)" where
  "toChunks_extend chs a b offA offB startA startB i chunk toA0 toB0 =
     (if int i < int (length chs) - 1
      then (case fromLine (fromA (chs ! Suc i) + offA) (fromB (chs ! Suc i) + offB) a b of
              Inl e \<Rightarrow> Inl e
            | Inr (nextA, nextB) \<Rightarrow>
                if nextA > toA0 + 1 \<and> nextB > toB0 + 1 then Inr (i, chunk, toA0, toB0)
                else (case toLine (toA (chs ! Suc i) + offA) (toB (chs ! Suc i) + offB) a b of
                        Inl e \<Rightarrow> Inl e
                      | Inr (toA1, toB1) \<Rightarrow>
                          toChunks_extend chs a b offA offB startA startB (Suc i)
                            (chunk @ [offset (chs ! Suc i) (- startA + offA) (- startB + offB)])
                            toA1 toB1))
      else Inr (i, chunk, toA0, toB0))"
  by pat_completeness auto
termination
  by (relation "measure (\<lambda>(chs, a, b, offA, offB, startA, startB, i, chunk, toA0, toB0).
        length chs - i)") auto

declare toChunks_extend.simps [simp del]

function toChunks_loop ::
  "change list \<Rightarrow> jsstring \<Rightarrow> jsstring \<Rightarrow> int \<Rightarrow> int \<Rightarrow> bool \<Rightarrow> nat \<Rightarrow> chunk list
     \<Rightarrow> error + chunk list" where
  "toChunks_loop chs a b offA offB prec i chunks =
     (if i < length chs
      then (case fromLine (fromA (chs ! i) + offA) (fromB (chs ! i) + offB) a b of
              Inl e \<Rightarrow> Inl e
            | Inr (startA, startB) \<Rightarrow>
               (case toLine (toA (chs ! i) + offA) (toB (chs ! i) + offB) a b of
                  Inl e \<Rightarrow> Inl e
                | Inr (toA0, toB0) \<Rightarrow>
                   (case toChunks_extend chs a b offA offB startA startB i
                           [offset (chs ! i) (- startA + offA) (- startB + offB)] toA0 toB0 of
                      Inl e \<Rightarrow> Inl e
                    | Inr (i', chunk, toA1, toB1) \<Rightarrow>
                        toChunks_loop chs a b offA offB prec (Suc i')
                          (chunks @ [Chunk chunk startA (max startA toA1) startB (max startB toB1) prec]))))
      else Inr chunks)"
  by pat_completeness auto
termination
proof -
  have extend_index: "i \<le> i'"
    if "toChunks_extend chs a b offA offB startA startB i chunk toA0 toB0 = Inr (i', chunk', toA1, toB1)"
    for chs a b offA offB startA startB i chunk toA0 toB0 i' chunk' toA1 toB1
    using that
  proof (induction chs a b offA offB startA startB i chunk toA0 toB0
      rule: toChunks_extend.induct)
    case (1 chs a b offA offB startA startB i chunk toA0 toB0)
    from "1.prems" have "i = i' \<or> (\<exists>nextA nextB toA2 toB2.
         int i < int (length chs) - 1
       \<and> fromLine (fromA (chs ! Suc i) + offA) (fromB (chs ! Suc i) + offB) a b = Inr (nextA, nextB)
       \<and> \<not> (nextA > toA0 + 1 \<and> nextB > toB0 + 1)
       \<and> toLine (toA (chs ! Suc i) + offA) (toB (chs ! Suc i) + offB) a b = Inr (toA2, toB2)
       \<and> toChunks_extend chs a b offA offB startA startB (Suc i)
                    (chunk @ [offset (chs ! Suc i) (- startA + offA) (- startB + offB)])
                    toA2 toB2 = Inr (i', chunk', toA1, toB1))"
      by (subst (asm) toChunks_extend.simps) (simp split: if_splits sum.splits prod.splits)
    then show ?case
    proof
      assume "i = i'"
      then show ?thesis by simp
    next
      assume "\<exists>nextA nextB toA2 toB2.
         int i < int (length chs) - 1
       \<and> fromLine (fromA (chs ! Suc i) + offA) (fromB (chs ! Suc i) + offB) a b = Inr (nextA, nextB)
       \<and> \<not> (nextA > toA0 + 1 \<and> nextB > toB0 + 1)
       \<and> toLine (toA (chs ! Suc i) + offA) (toB (chs ! Suc i) + offB) a b = Inr (toA2, toB2)
       \<and> toChunks_extend chs a b offA offB startA startB (Suc i)
                    (chunk @ [offset (chs ! Suc i) (- startA + offA) (- startB + offB)])
                    toA2 toB2 = Inr (i', chunk', toA1, toB1)"
      then obtain nextA nextB toA2 toB2 where
        c: "int i < int (length chs) - 1"
        and f: "fromLine (fromA (chs ! Suc i) + offA) (fromB (chs ! Suc i) + offB) a b = Inr (nextA, nextB)"
        and n: "\<not> (nextA > toA0 + 1 \<and> nextB > toB0 + 1)"
        and t: "toLine (toA (chs ! Suc i) + offA) (toB (chs ! Suc i) + offB) a b = Inr (toA2, toB2)"
        and r: "toChunks_extend chs a b offA offB startA startB (Suc i)
                    (chunk @ [offset (chs ! Suc i) (- startA + offA) (- startB + offB)])
                    toA2 toB2 = Inr (i', chunk', toA1, toB1)"
        by blast
      have "Suc i \<le> i'"
        by (rule "1.IH" [OF c f refl n t refl r])
      then show ?thesis by simp
    qed
  qed
  show ?thesis
    by (relation "measure (\<lambda>(chs, a, b, offA, offB, prec, i, chunks). length chs - i)")
      (auto dest: extend_index)
qed

declare toChunks_loop.simps [simp del]

definition toChunks ::
  "change list \<Rightarrow> jsstring \<Rightarrow> jsstring \<Rightarrow> int \<Rightarrow> int \<Rightarrow> bool \<Rightarrow> error + chunk list" where
  "toChunks chs a b offA offB prec = toChunks_loop chs a b offA offB prec 0 []"

section \<open>Building and updating the chunk list\<close>

definition build ::
  "nat \<Rightarrow> (nat \<Rightarrow> int) \<Rightarrow> wordTest \<Rightarrow> diffState \<Rightarrow> jsstring \<Rightarrow> jsstring \<Rightarrow> diffConfig
     \<Rightarrow> error + (chunk list \<times> diffState)" where
  "build fuel clk wordChar st a b conf =
     (case presentableDiff fuel clk wordChar st a b conf of
        None \<Rightarrow> Inl NoResult
      | Some (d, st1) \<Rightarrow>
          (case toChunks d a b 0 0 (diffIsPrecise st1) of
             Inl e \<Rightarrow> Inl e
           | Inr chunks \<Rightarrow> Inr (chunks, st1)))"

definition updateMargin :: int where
  "updateMargin = 1000"

text \<open>
  \<^verbatim>\<open>findPos\<close>: a binary search for the chunk that contains \<open>pos\<close> on one side. The
  bounds are indices into the chunk list; \<^verbatim>\<open>(lo + hi) >> 1\<close> is their mean. The search
  ends when the bounds meet (\<^verbatim>\<open>lo == hi\<close>); \<open>lo\<close> never passes \<open>hi\<close>, since
  \<open>lo \<le> mid < hi\<close> at every step.
\<close>

function findPos_loop :: "chunk list \<Rightarrow> int \<Rightarrow> bool \<Rightarrow> bool \<Rightarrow> nat \<Rightarrow> nat \<Rightarrow> int \<times> int" where
  "findPos_loop chunks pos isA start0 lo hi =
     (if lo \<ge> hi
      then (let refA = (if lo \<noteq> 0 then chunk_toA (chunks ! (lo - 1)) else 0);
                refB = (if lo \<noteq> 0 then chunk_toB (chunks ! (lo - 1)) else 0);
                off = pos - (if isA then refA else refB)
            in (refA + off, refB + off))
      else (let mid = (lo + hi) div 2; c = chunks ! mid;
                from = (if isA then chunk_fromA c else chunk_fromB c);
                to = (if isA then chunk_toA c else chunk_toB c)
            in if from > pos then findPos_loop chunks pos isA start0 lo mid
               else if to \<le> pos then findPos_loop chunks pos isA start0 (mid + 1) hi
               else if start0 then (chunk_fromA c, chunk_fromB c)
               else (chunk_toA c, chunk_toB c)))"
  by pat_completeness auto
termination
  by (relation "measure (\<lambda>(chunks, pos, isA, start0, lo, hi). hi - lo)") auto

declare findPos_loop.simps [simp del]

definition findPos :: "chunk list \<Rightarrow> int \<Rightarrow> bool \<Rightarrow> bool \<Rightarrow> int \<times> int" where
  "findPos chunks pos isA start0 = findPos_loop chunks pos isA start0 0 (length chunks)"

text \<open>
  Modelled from the spec: the edit description is the host editor's \<^verbatim>\<open>ChangeDesc\<close>,
  which is not part of the sources. It is ``an ordered list of disjoint
  \<^verbatim>\<open>(oldFrom, oldTo, newFrom, newTo)\<close> edited ranges in pre-edit coordinates'', handed out
  one by one by \<^verbatim>\<open>iterChangedRanges\<close>, together with the length of the document before
  the edit (\<^verbatim>\<open>changes.length\<close>).
\<close>

record changeDesc =
  oldLength :: int
  changedRanges :: "(int \<times> int \<times> int \<times> int) list"

text \<open>A window to diff again, with the change in length that the edits cause in it.\<close>

datatype range = Range (range_fromA: int) (range_toA: int) (range_fromB: int) (range_toB: int)
  (diffA: int) (diffB: int)

text \<open>The callback that \<^verbatim>\<open>findRangesForChange\<close> passes to \<^verbatim>\<open>iterChangedRanges\<close>.\<close>

definition addRange ::
  "chunk list \<Rightarrow> changeDesc \<Rightarrow> bool \<Rightarrow> int \<Rightarrow> range list \<Rightarrow> int \<times> int \<times> int \<times> int \<Rightarrow> range list" where
  "addRange chunks chg isA otherLen ranges r =
     (case r of (cFromA, cToA, cFromB, cToB) \<Rightarrow>
        (let (fromA1, fromB1) =
               (if cFromA > updateMargin then findPos chunks (cFromA - updateMargin) isA True
                else (0, 0));
             (toA1, toB1) =
               (if cToA < oldLength chg - updateMargin then findPos chunks (cToA + updateMargin) isA False
                else (if isA then oldLength chg else otherLen,
                      if isA then otherLen else oldLength chg));
             lenDiff = (cToB - cFromB) - (cToA - cFromA);
             dA = (if isA then lenDiff else 0);
             dB = (if isA then 0 else lenDiff)
         in if ranges \<noteq> [] \<and> range_toA (last ranges) \<ge> fromA1
            then butlast ranges
                 @ [Range (range_fromA (last ranges)) toA1 (range_fromB (last ranges)) toB1
                      (diffA (last ranges) + dA) (diffB (last ranges) + dB)]
            else ranges @ [Range fromA1 toA1 fromB1 toB1 dA dB]))"

definition findRangesForChange :: "chunk list \<Rightarrow> changeDesc \<Rightarrow> bool \<Rightarrow> int \<Rightarrow> range list" where
  "findRangesForChange chunks chg isA otherLen =
     foldl (addRange chunks chg isA otherLen) [] (changedRanges chg)"

text \<open>
  \<^verbatim>\<open>updateChunks\<close> walks through the windows with an index \<open>chunkI\<close> into the old chunk
  list; here the old chunks from \<open>chunkI\<close> on are the list \<open>rest\<close>. Chunks that end
  before the window are kept (moved by the offsets), the window is diffed again, and
  old chunks are dropped until one starts after the window on both sides.
\<close>

fun updateChunks_loop ::
  "nat \<Rightarrow> (nat \<Rightarrow> int) \<Rightarrow> wordTest \<Rightarrow> diffState \<Rightarrow> range list \<Rightarrow> jsstring \<Rightarrow> jsstring \<Rightarrow> diffConfig
     \<Rightarrow> int \<Rightarrow> int \<Rightarrow> chunk list \<Rightarrow> chunk list \<Rightarrow> error + (chunk list \<times> diffState)" where
  "updateChunks_loop fuel clk wordChar st [] a b conf offA offB rest result =
     Inr (result
          @ map (\<lambda>next. offsetChunk next offA offB)
              (takeWhile (\<lambda>next. \<not> (chunk_toA next + offA > int (length a)
                                    \<or> chunk_toB next + offB > int (length b))) rest),
          st)"
| "updateChunks_loop fuel clk wordChar st (r # ranges) a b conf offA offB rest result =
     (let fromA1 = range_fromA r + offA; fromB1 = range_fromB r + offB;
          keep = (\<lambda>next. \<not> (chunk_toA next + offA > fromA1 \<or> chunk_toB next + offB > fromB1));
          toA1 = range_toA r + offA + diffA r; toB1 = range_toB r + offB + diffB r
      in case presentableDiff fuel clk wordChar st
                (sliceString a fromA1 toA1) (sliceString b fromB1 toB1) conf of
           None \<Rightarrow> Inl NoResult
         | Some (d, st1) \<Rightarrow>
             (case toChunks d a b fromA1 fromB1 (diffIsPrecise st1) of
                Inl e \<Rightarrow> Inl e
              | Inr fresh \<Rightarrow>
                  updateChunks_loop fuel clk wordChar st1 ranges a b conf
                    (offA + diffA r) (offB + diffB r)
                    (dropWhile (\<lambda>next. \<not> (chunk_fromA next + (offA + diffA r) > toA1
                                           \<and> chunk_fromB next + (offB + diffB r) > toB1))
                       (dropWhile keep rest))
                    (result @ map (\<lambda>next. offsetChunk next offA offB) (takeWhile keep rest)
                     @ fresh)))"

definition updateChunks ::
  "nat \<Rightarrow> (nat \<Rightarrow> int) \<Rightarrow> wordTest \<Rightarrow> diffState \<Rightarrow> range list \<Rightarrow> chunk list \<Rightarrow> jsstring \<Rightarrow> jsstring
     \<Rightarrow> diffConfig \<Rightarrow> error + (chunk list \<times> diffState)" where
  "updateChunks fuel clk wordChar st ranges chunks a b conf =
     (if ranges = [] then Inr (chunks, st)
      else updateChunks_loop fuel clk wordChar st ranges a b conf 0 0 chunks [])"

definition updateA ::
  "nat \<Rightarrow> (nat \<Rightarrow> int) \<Rightarrow> wordTest \<Rightarrow> diffState \<Rightarrow> chunk list \<Rightarrow> jsstring \<Rightarrow> jsstring \<Rightarrow> changeDesc
     \<Rightarrow> diffConfig \<Rightarrow> error + (chunk list \<times> diffState)" where
  "updateA fuel clk wordChar st chunks a b chg conf =
     updateChunks fuel clk wordChar st
       (findRangesForChange chunks chg True (int (length b))) chunks a b conf"

definition updateB ::
  "nat \<Rightarrow> (nat \<Rightarrow> int) \<Rightarrow> wordTest \<Rightarrow> diffState \<Rightarrow> chunk list \<Rightarrow> jsstring \<Rightarrow> jsstring \<Rightarrow> changeDesc
     \<Rightarrow> diffConfig \<Rightarrow> error + (chunk list \<times> diffState)" where
  "updateB fuel clk wordChar st chunks a b chg conf =
     updateChunks fuel clk wordChar st
       (findRangesForChange chunks chg False (int (length a))) chunks a b conf"

section \<open>Sequences of edits\<close>









section \<open>What a valid diff is\<close>

text \<open>
  The Spans, read from position \<open>(posA, posB)\<close> on, lie in order inside the two strings,
  none ends before it starts, and the text before each of them and after the last is the
  same in both strings.
\<close>

fun spansCover :: "jsstring \<Rightarrow> jsstring \<Rightarrow> change list \<Rightarrow> int \<Rightarrow> int \<Rightarrow> bool" where
  "spansCover a b [] posA posB =
     (posA \<le> int (length a) \<and> posB \<le> int (length b) \<and> drop (nat posA) a = drop (nat posB) b)"
| "spansCover a b (c # cs) posA posB =
     (posA \<le> fromA c \<and> posB \<le> fromB c \<and> fromA c \<le> toA c \<and> fromB c \<le> toB c
      \<and> toA c \<le> int (length a) \<and> toB c \<le> int (length b)
      \<and> fromA c - posA = fromB c - posB
      \<and> slice a posA (fromA c) = slice b posB (fromB c)
      \<and> spansCover a b cs (toA c) (toB c))"

text \<open>Replace the A-range of each Span by its B-text, from position \<open>posA\<close> of \<open>a\<close> on.\<close>

fun applySpans :: "jsstring \<Rightarrow> jsstring \<Rightarrow> change list \<Rightarrow> int \<Rightarrow> jsstring" where
  "applySpans a b [] posA = sliceFrom a posA"
| "applySpans a b (c # cs) posA =
     slice a posA (fromA c) @ slice b (fromB c) (toB c) @ applySpans a b cs (toA c)"

section \<open>Inputs used in the examples\<close>

definition ascii :: "string \<Rightarrow> jsstring" where
  "ascii s = map of_char s"

text \<open>No configuration object, a clock that stands still, and the state before any diff.\<close>

definition noConfig :: diffConfig where
  "noConfig = \<lparr>cfg_scanLimit = None, cfg_timeout = None\<rparr>"

definition frozenClock :: "nat \<Rightarrow> int" where
  "frozenClock n = 0"

definition initialState :: diffState where
  "initialState = \<lparr>crude = False, ticks = 0\<rparr>"

definition threeLinesA :: jsstring where
  "threeLinesA = ascii ''line1'' @ [10] @ ascii ''line2'' @ [10] @ ascii ''line3''"

definition threeLinesB :: jsstring where
  "threeLinesB = ascii ''line1'' @ [10] @ ascii ''lineX'' @ [10] @ ascii ''line3''"




text \<open>The order on the functions used for recursive calls: more results, the same values.\<close>

definition differ_le :: "differ \<Rightarrow> differ \<Rightarrow> bool" where
  "differ_le r r' = (\<forall>st fA tA fB tB res. r st fA tA fB tB = Some res \<longrightarrow> r' st fA tA fB tB = Some res)"


section \<open>More recursion depth never changes a result\<close>

lemma differ_leD: "differ_le r r' \<Longrightarrow> r st fA tA fB tB = Some res \<Longrightarrow> r' st fA tA fB tB = Some res"
  unfolding differ_le_def by blast

lemma concatDiffs_mono:
  assumes "differ_le r r'"
    and "concatDiffs r st fA1 tA1 fB1 tB1 fA2 tA2 fB2 tB2 = Some res"
  shows "concatDiffs r' st fA1 tA1 fB1 tB1 fA2 tA2 fB2 tB2 = Some res"
proof -
  from assms(2) obtain left st1 right st2 where
    l: "r st fA1 tA1 fB1 tB1 = Some (left, st1)"
    and rr: "r st1 fA2 tA2 fB2 tB2 = Some (right, st2)"
    and res: "res = (left @ right, st2)"
    by (auto simp: concatDiffs_def split: option.splits prod.splits)
  from differ_leD [OF assms(1) l] differ_leD [OF assms(1) rr] res
  show ?thesis by (simp add: concatDiffs_def)
qed

lemma bisect_mono:
  assumes "differ_le r r'"
    and "bisect r st a fA tA sA b fB tB sB = Some res"
  shows "bisect r' st a fA tA sA b fB tB sB = Some res"
  using assms(2) concatDiffs_mono [OF assms(1)]
  by (auto simp: bisect_def Let_def split: if_splits)

lemma crudeMatch_mono:
  assumes le: "differ_le r r'"
    and run: "crudeMatch r st a fA tA b fB tB = Some res"
  shows "crudeMatch r' st a fA tA b fB tB = Some res"
proof -
  let ?m = "if tA - fA < tB - fB
            then map_option swapMatch (findMatch b fB tB a fA tA ((tA - fA) div 6) 50)
            else findMatch a fA tA b fB tB ((tB - fB) div 6) 50"
  show ?thesis
  proof (cases ?m)
    case None
    with run show ?thesis by (simp add: crudeMatch_def)
  next
    case (Some m)
    show ?thesis
    proof (cases m)
      case None
      with Some run show ?thesis by (simp add: crudeMatch_def)
    next
      case inner: (Some t)
      obtain sharedA sharedB sharedLen where t: "t = (sharedA, sharedB, sharedLen)"
        by (cases t)
      from Some inner t run
      have "concatDiffs r (st\<lparr>crude := True\<rparr>) fA sharedA fB sharedB
              (sharedA + sharedLen) tA (sharedB + sharedLen) tB = Some res"
        by (simp add: crudeMatch_def)
      from concatDiffs_mono [OF le this] Some inner t show ?thesis
        by (simp add: crudeMatch_def)
    qed
  qed
qed

lemma findSnake_loop_mono:
  "differ_le r r' \<Longrightarrow> findSnake_loop r env st a fA tA b fB tB off f1 f2 depth = Some res
    \<Longrightarrow> findSnake_loop r' env st a fA tA b fB tB off f1 f2 depth = Some res"
proof (induction r env st a fA tA b fB tB off f1 f2 depth rule: findSnake_loop.induct)
  case (1 rec env st a fromA0 toA0 b fromB0 toB0 off frontier1 frontier2 depth)
  note le = "1.prems"(1) and run = "1.prems"(2)
  show ?case
  proof (cases "depth < off")
    case False
    with run show ?thesis
      by (subst findSnake_loop.simps, subst (asm) findSnake_loop.simps) simp
  next
    case True
    obtain ex st1 where bud: "depthBudgetExceeded env st depth = (ex, st1)"
      by (cases "depthBudgetExceeded env st depth")
    show ?thesis
    proof (cases ex)
      case True
      with \<open>depth < off\<close> bud run
      have "crudeMatch rec st1 a fromA0 toA0 b fromB0 toB0 = Some res"
        by (subst (asm) findSnake_loop.simps) simp
      from crudeMatch_mono [OF le this] True \<open>depth < off\<close> bud show ?thesis
        by (subst findSnake_loop.simps) simp
    next
      case False
      let ?adv1 = "advance frontier1 depth (toA0 - fromA0) (toB0 - fromB0) off
                       (if ((toA0 - fromA0) - (toB0 - fromB0)) mod 2 \<noteq> 0 then Some frontier2 else None)
                       False (match1 a fromA0 b fromB0)"
      show ?thesis
      proof (cases ?adv1)
        case None
        with False \<open>depth < off\<close> bud run show ?thesis
          by (subst (asm) findSnake_loop.simps) simp
      next
        case (Some r1)
        obtain d1 g1 where r1: "r1 = (d1, g1)" by (cases r1)
        show ?thesis
        proof (cases d1)
          case (Some xy)
          obtain x y where xy: "xy = (x, y)" by (cases xy)
          from False \<open>depth < off\<close> bud run \<open>?adv1 = Some r1\<close> r1 Some xy
          have "bisect rec st1 a fromA0 toA0 (fromA0 + x) b fromB0 toB0 (fromB0 + y) = Some res"
            by (subst (asm) findSnake_loop.simps) simp
          from bisect_mono [OF le this] False \<open>depth < off\<close> bud \<open>?adv1 = Some r1\<close> r1 Some xy
          show ?thesis
            by (subst findSnake_loop.simps) simp
        next
          case None
          let ?adv2 = "advance frontier2 depth (toA0 - fromA0) (toB0 - fromB0) off
                           (if ((toA0 - fromA0) - (toB0 - fromB0)) mod 2 \<noteq> 0 then None else Some g1)
                           True (match2 a toA0 b toB0)"
          show ?thesis
          proof (cases ?adv2)
            case n2: None
            with None False \<open>depth < off\<close> bud run \<open>?adv1 = Some r1\<close> r1 show ?thesis
              by (subst (asm) findSnake_loop.simps) simp
          next
            case s2: (Some r2)
            obtain d2 g2 where r2: "r2 = (d2, g2)" by (cases r2)
            show ?thesis
            proof (cases d2)
              case (Some xy)
              obtain x y where xy: "xy = (x, y)" by (cases xy)
              from None False \<open>depth < off\<close> bud run \<open>?adv1 = Some r1\<close> r1 s2 r2 Some xy
              have "bisect rec st1 a fromA0 toA0 (fromA0 + x) b fromB0 toB0 (fromB0 + y) = Some res"
                by (subst (asm) findSnake_loop.simps) simp
              from bisect_mono [OF le this] None False \<open>depth < off\<close> bud \<open>?adv1 = Some r1\<close> r1 s2 r2 Some xy
              show ?thesis
                by (subst findSnake_loop.simps) simp
            next
              case n3: None
              from None False \<open>depth < off\<close> bud run \<open>?adv1 = Some r1\<close> r1 s2 r2 n3
              have "findSnake_loop rec env st1 a fromA0 toA0 b fromB0 toB0 off g1 g2 (depth + 1) = Some res"
                by (subst (asm) findSnake_loop.simps) simp
              then have "findSnake_loop r' env st1 a fromA0 toA0 b fromB0 toB0 off g1 g2 (depth + 1) = Some res"
                using "1.IH" [OF \<open>depth < off\<close> bud [symmetric] _ \<open>?adv1 = Some r1\<close> r1 [symmetric] _ s2 r2 [symmetric] _ le]
                  False None n3 by simp
              with None False \<open>depth < off\<close> bud \<open>?adv1 = Some r1\<close> r1 s2 r2 n3 show ?thesis
                by (subst findSnake_loop.simps) simp
            qed
          qed
        qed
      qed
    qed
  qed
qed


lemma findSnake_mono:
  assumes le: "differ_le r r'"
    and run: "findSnake r env st a fA tA b fB tB = Some res"
  shows "findSnake r' env st a fA tA b fB tB = Some res"
proof -
  obtain ex st1 where bud: "entryBudgetExceeded env st (tA - fA) (tB - fB) = (ex, st1)"
    by (cases "entryBudgetExceeded env st (tA - fA) (tB - fB)")
  show ?thesis
  proof (cases ex)
    case True
    show ?thesis
    proof (cases "min (tA - fA) (tB - fB) > scanLimit env * 64")
      case True
      with \<open>ex\<close> bud run show ?thesis
        by (simp add: findSnake_def del: min_less_iff_conj)
    next
      case False
      with \<open>ex\<close> bud run have "crudeMatch r st1 a fA tA b fB tB = Some res"
        by (simp add: findSnake_def del: min_less_iff_conj)
      from crudeMatch_mono [OF le this] False \<open>ex\<close> bud show ?thesis
        by (simp add: findSnake_def del: min_less_iff_conj)
    qed
  next
    case False
    with bud run
    have "findSnake_loop r env st1 a fA tA b fB tB (((tA - fA) + (tB - fB) + 1) div 2)
            (reset (((tA - fA) + (tB - fB) + 1) div 2))
            (reset (((tA - fA) + (tB - fB) + 1) div 2)) 0 = Some res"
      by (simp add: findSnake_def)
    from findSnake_loop_mono [OF le this] False bud show ?thesis
      by (simp add: findSnake_def)
  qed
qed

lemma findDiff_split_mono:
  assumes le: "differ_le r r'"
    and run: "findDiff_split r env st a fA tA b fB tB = Some res"
  shows "findDiff_split r' env st a fA tA b fB tB = Some res"
proof (cases "halfMatch a fA tA b fB tB")
  case None
  with run show ?thesis by (simp add: findDiff_split_def)
next
  case (Some h)
  show ?thesis
  proof (cases h)
    case None
    with Some run findSnake_mono [OF le, of env st a fA tA b fB tB res] show ?thesis
      by (simp add: findDiff_split_def)
  next
    case inner: (Some t)
    obtain sharedA sharedB sharedLen where t: "t = (sharedA, sharedB, sharedLen)"
      by (cases t)
    from Some inner t run
      concatDiffs_mono [OF le, of st fA sharedA fB sharedB "sharedA + sharedLen" tA
        "sharedB + sharedLen" tB res]
    show ?thesis
      by (simp add: findDiff_split_def)
  qed
qed

lemma findDiff_middle_mono:
  assumes le: "differ_le r r'"
    and run: "findDiff_middle r env st a fA tA b fB tB = Some res"
  shows "findDiff_middle r' env st a fA tA b fB tB = Some res"
  using run findDiff_split_mono [OF le, of env st a fA tA b fB tB res]
  by (cases "findDiff_direct a fA tA b fB tB") (simp_all add: findDiff_middle_def)

lemma findDiff_body_mono:
  assumes le: "differ_le r r'"
    and run: "findDiff_body r env st a fA tA b fB tB = Some res"
  shows "findDiff_body r' env st a fA tA b fB tB = Some res"
proof (cases "a = b")
  case True
  with run show ?thesis by (simp add: findDiff_body_def)
next
  case False
  from False run obtain prefix where p: "commonPrefix a fA tA b fB tB = Some prefix"
    by (auto simp: findDiff_body_def split: option.splits)
  from False run p obtain suffix where
    s: "commonSuffix a (fA + prefix) tA b (fB + prefix) tB = Some suffix"
    by (auto simp: findDiff_body_def split: option.splits)
  from False run p s
  have "findDiff_middle r env st a (fA + prefix) (tA - suffix) b (fB + prefix) (tB - suffix) = Some res"
    by (simp add: findDiff_body_def)
  from findDiff_middle_mono [OF le this] False p s show ?thesis
    by (simp add: findDiff_body_def)
qed

lemma findDiff_Suc_le:
  "differ_le (\<lambda>st fA tA fB tB. findDiff n env st a fA tA b fB tB)
             (\<lambda>st fA tA fB tB. findDiff (Suc n) env st a fA tA b fB tB)"
proof (induction n)
  case 0
  have bot: "differ_le (\<lambda>st' fA tA fB tB. None)
               (\<lambda>st fA tA fB tB. findDiff 0 env st a fA tA b fB tB)"
    by (simp add: differ_le_def)
  show ?case
    unfolding differ_le_def
  proof (intro allI impI)
    fix st fA tA fB tB res
    assume "findDiff 0 env st a fA tA b fB tB = Some res"
    then have "findDiff_body (\<lambda>st' fA tA fB tB. None) env st a fA tA b fB tB = Some res"
      by simp
    from findDiff_body_mono [OF bot this]
    show "findDiff (Suc 0) env st a fA tA b fB tB = Some res"
      by simp
  qed
next
  case (Suc n)
  show ?case
    unfolding differ_le_def
  proof (intro allI impI)
    fix st fA tA fB tB res
    assume "findDiff (Suc n) env st a fA tA b fB tB = Some res"
    then have "findDiff_body (\<lambda>st' fA tA fB tB. findDiff n env st' a fA tA b fB tB)
                 env st a fA tA b fB tB = Some res"
      by simp
    from findDiff_body_mono [OF Suc.IH this]
    show "findDiff (Suc (Suc n)) env st a fA tA b fB tB = Some res"
      by simp
  qed
qed

lemma findDiff_mono:
  "findDiff n env st a fA tA b fB tB = Some res \<Longrightarrow> findDiff (n + k) env st a fA tA b fB tB = Some res"
proof (induction k)
  case 0
  then show ?case by simp
next
  case (Suc k)
  from differ_leD [OF findDiff_Suc_le [of "n + k" env a b] Suc.IH [OF Suc.prems]]
  show ?case by simp
qed

lemma diff_mono:
  "diff n clk st a b config = Some res \<Longrightarrow> diff (n + k) clk st a b config = Some res"
  by (auto simp: diff_def split: option.splits prod.splits dest: findDiff_mono [where k = k])

lemma presentableDiff_mono:
  "presentableDiff n clk wordChar st a b config = Some res
    \<Longrightarrow> presentableDiff (n + k) clk wordChar st a b config = Some res"
  by (auto simp: presentableDiff_def split: option.splits prod.splits dest: diff_mono [where k = k])

lemma build_mono:
  "build n clk wordChar st a b config = Inr res
    \<Longrightarrow> build (n + k) clk wordChar st a b config = Inr res"
  by (auto simp: build_def split: option.splits prod.splits sum.splits
      dest: presentableDiff_mono [where k = k])

section \<open>What \<open>mergeAdjacent\<close> leaves behind\<close>

lemma mergeAdjacent_loop_separated:
  "0 < i \<Longrightarrow> \<forall>j. Suc j < i \<longrightarrow> \<not> tooClose g (cs ! j) (cs ! Suc j)
    \<Longrightarrow> Suc j < length (mergeAdjacent_loop cs g i)
    \<Longrightarrow> \<not> tooClose g (mergeAdjacent_loop cs g i ! j) (mergeAdjacent_loop cs g i ! Suc j)"
proof (induction cs g i arbitrary: j rule: mergeAdjacent_loop.induct)
  case (1 changes minGap i)
  note pos = "1.prems"(1) and inv = "1.prems"(2) and len = "1.prems"(3)
  show ?case
  proof (cases "i < length changes")
    case False
    with pos have eq: "mergeAdjacent_loop changes minGap i = changes"
      by (subst mergeAdjacent_loop.simps) simp
    from len eq False have "Suc j < i" by simp
    with inv eq show ?thesis by simp
  next
    case True
    let ?prev = "changes ! (i - 1)" and ?cur = "changes ! i"
    show ?thesis
    proof (cases "tooClose minGap ?prev ?cur")
      case False
      with True pos
      have eq: "mergeAdjacent_loop changes minGap i = mergeAdjacent_loop changes minGap (Suc i)"
        by (subst mergeAdjacent_loop.simps) simp
      have inv': "\<forall>j. Suc j < Suc i \<longrightarrow> \<not> tooClose minGap (changes ! j) (changes ! Suc j)"
      proof (intro allI impI)
        fix j assume "Suc j < Suc i"
        then consider "Suc j < i" | "Suc j = i" by linarith
        then show "\<not> tooClose minGap (changes ! j) (changes ! Suc j)"
        proof cases
          case 1
          with inv show ?thesis by simp
        next
          case 2
          with False show ?thesis by auto
        qed
      qed
      from "1.IH"(2) [OF _ _ _ inv'] True pos False len eq show ?thesis
        by simp
    next
      case close: True
      let ?m = "Change (fromA ?prev) (toA ?cur) (fromB ?prev) (toB ?cur)"
      let ?cs = "take (i - 1) changes @ [?m] @ drop (Suc i) changes"
      from True pos close
      have eq: "mergeAdjacent_loop changes minGap i = mergeAdjacent_loop ?cs minGap i"
        by (subst mergeAdjacent_loop.simps) simp
      have inv': "\<forall>j. Suc j < i \<longrightarrow> \<not> tooClose minGap (?cs ! j) (?cs ! Suc j)"
      proof (intro allI impI)
        fix j assume j: "Suc j < i"
        from j have "j < i - 1" by linarith
        with True have l: "?cs ! j = changes ! j"
          by (simp add: nth_append)
        from j consider "Suc j < i - 1" | "Suc j = i - 1" by linarith
        then show "\<not> tooClose minGap (?cs ! j) (?cs ! Suc j)"
        proof cases
          case 1
          with True have "?cs ! Suc j = changes ! Suc j"
            by (simp add: nth_append)
          with l inv j show ?thesis by simp
        next
          case 2
          with True pos have m: "?cs ! Suc j = ?m"
            by (simp add: nth_append)
          from inv j have "\<not> tooClose minGap (changes ! j) (changes ! Suc j)"
            by simp
          with 2 have "\<not> tooClose minGap (changes ! j) ?m"
            by (simp add: tooClose_def)
          with l m show ?thesis by simp
        qed
      qed
      from "1.IH"(1) [OF _ _ pos inv'] True pos close len eq show ?thesis
        by simp
    qed
  qed
qed

lemma mergeAdjacent_separated:
  "Suc j < length (mergeAdjacent cs g)
    \<Longrightarrow> \<not> tooClose g (mergeAdjacent cs g ! j) (mergeAdjacent cs g ! Suc j)"
  unfolding mergeAdjacent_def by (rule mergeAdjacent_loop_separated) simp_all

section \<open>Identity\<close>

lemma normalize_loop_Nil: "normalize_loop a b [] = Some []"
  by (subst normalize_loop.simps)
    (simp add: mergeAdjacent_def mergeAdjacent_loop.simps normalize_pass.simps)

text \<open>
  C2. For every string \<open>a\<close> and every configuration, \<^verbatim>\<open>diff(a, a, config)\<close> returns the
  empty list, at every recursion depth allowed, with any clock and from any state; so
  does \<^verbatim>\<open>diff("abc", "abc")\<close>.
\<close>

theorem diff_identity:
  "diff fuel clk st a a config = Some ([], diffStart st config)
   \<and> map_option fst (diff fuel clk st (ascii ''abc'') (ascii ''abc'') noConfig) = Some []"
  by (cases fuel) (simp_all add: diff_def findDiff_body_def normalize_loop_Nil)

section \<open>The worked examples\<close>

lemma diff_hello_fuel1:
  "diff (Suc 0) clk st (ascii ''hello world'') (ascii ''hello there'') noConfig
     = Some ([Change 6 8 6 9, Change 9 11 10 11], \<lparr>crude = False, ticks = ticks st\<rparr>)"
  by code_simp

text \<open>
  C8, as stated, fails: \<^verbatim>\<open>diff("hello world", "hello there")\<close> does not return the single
  Span \<open>(6, 11, 6, 12)\<close>. (The second string has only 11 units.)
\<close>

theorem diff_hello_counterexample:
  "map_option fst (diff (Suc 0) frozenClock initialState
      (ascii ''hello world'') (ascii ''hello there'') noConfig) \<noteq> Some [Change 6 11 6 12]"
  by (simp add: diff_hello_fuel1)

text \<open>
  C8, amended. \<^verbatim>\<open>diff("hello world", "hello there")\<close> returns exactly two Spans: ``wo''
  (A 6 to 8) replaced by ``the'' (B 6 to 9), and ``ld'' (A 9 to 11) replaced by ``e''
  (B 10 to 11); the ``r'' that both words share stays outside the Spans. This holds at
  every recursion depth from 1 on, with any clock and from any state.
\<close>

theorem diff_hello:
  "diff (Suc n) clk st (ascii ''hello world'') (ascii ''hello there'') noConfig
     = Some ([Change 6 8 6 9, Change 9 11 10 11], \<lparr>crude = False, ticks = ticks st\<rparr>)"
  using diff_mono [OF diff_hello_fuel1 [of clk st], where k = n] by simp

lemma build_three_lines_fuel0:
  "build 0 clk wordChar st threeLinesA threeLinesB noConfig
     = Inr ([Chunk [Change 0 5 0 5] 6 12 6 12 True], \<lparr>crude = False, ticks = ticks st\<rparr>)"
  by code_simp

text \<open>
  C5. \<^verbatim>\<open>Chunk.build("line1\nline2\nline3", "line1\nlineX\nline3")\<close> returns exactly one
  chunk, from 6 to 12 on both sides: the second line with its line break. The first line
  (0 to 5) and the third (12 to 17) lie outside it.
\<close>

theorem build_three_lines:
  "build n clk wordChar st threeLinesA threeLinesB noConfig
     = Inr ([Chunk [Change 0 5 0 5] 6 12 6 12 True], \<lparr>crude = False, ticks = ticks st\<rparr>)
   \<and> lineAt threeLinesA 0 = Inr (0, 5) \<and> lineAt threeLinesA 6 = Inr (6, 11)
   \<and> lineAt threeLinesA 12 = Inr (12, 17)"
proof -
  have "build (0 + n) clk wordChar st threeLinesA threeLinesB noConfig
     = Inr ([Chunk [Change 0 5 0 5] 6 12 6 12 True], \<lparr>crude = False, ticks = ticks st\<rparr>)"
    by (rule build_mono [OF build_three_lines_fuel0])
  moreover have "lineAt threeLinesA 0 = Inr (0, 5)" by code_simp
  moreover have "lineAt threeLinesA 6 = Inr (6, 11)" by code_simp
  moreover have "lineAt threeLinesA 12 = Inr (12, 17)" by code_simp
  ultimately show ?thesis by simp
qed

section \<open>An edit that changes nothing\<close>

text \<open>
  C10. When the edit description holds no changed range, \<^verbatim>\<open>Chunk.updateA\<close> and
  \<^verbatim>\<open>Chunk.updateB\<close> return the prior chunk list itself, for every prior list, every
  pair of documents and every configuration; no diff is run and the state is untouched.
\<close>

theorem update_without_changes:
  "changedRanges chg = []
    \<Longrightarrow> updateA fuel clk wordChar st chunks a b chg conf = Inr (chunks, st)
      \<and> updateB fuel clk wordChar st chunks a b chg conf = Inr (chunks, st)"
  by (simp add: updateA_def updateB_def updateChunks_def findRangesForChange_def)

theorem update_without_changes_witness:
  "changedRanges \<lparr>oldLength = 17, changedRanges = []\<rparr> = []
   \<and> updateA 0 frozenClock None initialState [Chunk [Change 0 5 0 5] 6 12 6 12 True]
        threeLinesA threeLinesB \<lparr>oldLength = 17, changedRanges = []\<rparr> noConfig
      = Inr ([Chunk [Change 0 5 0 5] 6 12 6 12 True], initialState)
   \<and> updateB 0 frozenClock None initialState [Chunk [Change 0 5 0 5] 6 12 6 12 True]
        threeLinesA threeLinesB \<lparr>oldLength = 17, changedRanges = []\<rparr> noConfig
      = Inr ([Chunk [Change 0 5 0 5] 6 12 6 12 True], initialState)"
  using update_without_changes [of "\<lparr>oldLength = 17, changedRanges = []\<rparr>" 0 frozenClock None
      initialState "[Chunk [Change 0 5 0 5] 6 12 6 12 True]" threeLinesA threeLinesB noConfig]
  by simp

section \<open>The hard ceiling of the budget\<close>

text \<open>
  With a budget from 0 to below \<^verbatim>\<open>1e9\<close> (every configured \<^verbatim>\<open>scanLimit\<close> from 0 to
  below \<^verbatim>\<open>2e9\<close>, and the default), a region above the ceiling is always caught by the test on entry; the
  test inside the depth loop, which has no ceiling, is not reached for it.
\<close>

lemma ceiling_caught_on_entry:
  assumes "0 \<le> scanLimit env" and "scanLimit env < 1000000000"
    and "min lenA lenB > scanLimit env * 64"
  shows "entryBudgetExceeded env st lenA lenB = (True, st)"
proof -
  from assms(1) have "scanLimit env * 16 \<le> scanLimit env * 64" by simp
  with assms(3) have "min lenA lenB > scanLimit env * 16" by linarith
  with assms(2) show ?thesis
    by (simp add: entryBudgetExceeded_def del: min_less_iff_conj)
qed

text \<open>
  C6. Whenever \<^verbatim>\<open>findSnake\<close> finds the budget exceeded on entry and the shorter side of
  the region is longer than 64 times the budget \<^verbatim>\<open>scanLimit\<close>, it returns the region
  as exactly one Span that covers the whole range on both sides. \<^verbatim>\<open>crudeMatch\<close> is not
  run: no recursive call is made (the result does not depend on \<open>rec\<close>) and the flag
  \<^verbatim>\<open>crude\<close> keeps its value.
\<close>

theorem findSnake_gives_up:
  assumes "fst (entryBudgetExceeded env st (toA0 - fromA0) (toB0 - fromB0))"
    and "min (toA0 - fromA0) (toB0 - fromB0) > scanLimit env * 64"
  shows "findSnake rec env st a fromA0 toA0 b fromB0 toB0
           = Some ([Change fromA0 toA0 fromB0 toB0],
                   snd (entryBudgetExceeded env st (toA0 - fromA0) (toB0 - fromB0)))
         \<and> crude (snd (entryBudgetExceeded env st (toA0 - fromA0) (toB0 - fromB0))) = crude st"
proof -
  obtain ex st1 where bud: "entryBudgetExceeded env st (toA0 - fromA0) (toB0 - fromB0) = (ex, st1)"
    by (cases "entryBudgetExceeded env st (toA0 - fromA0) (toB0 - fromB0)")
  from bud have "crude st1 = crude st"
    by (auto simp: entryBudgetExceeded_def timedOut_def split: if_splits)
  with assms bud show ?thesis
    by (simp add: findSnake_def del: min_less_iff_conj)
qed

theorem findSnake_gives_up_witness:
  "fst (entryBudgetExceeded (diffEnvOf frozenClock initialState \<lparr>cfg_scanLimit = Some 1, cfg_timeout = None\<rparr>)
          initialState (2 - 0) (2 - 0))
   \<and> min (2 - 0) (2 - 0)
       > scanLimit (diffEnvOf frozenClock initialState \<lparr>cfg_scanLimit = Some 1, cfg_timeout = None\<rparr>) * 64
   \<and> findSnake (\<lambda>st fA tA fB tB. None)
        (diffEnvOf frozenClock initialState \<lparr>cfg_scanLimit = Some 1, cfg_timeout = None\<rparr>)
        initialState (ascii ''ab'') 0 2 (ascii ''cd'') 0 2
      = Some ([Change 0 2 0 2], initialState)"
proof -
  let ?env = "diffEnvOf frozenClock initialState \<lparr>cfg_scanLimit = Some 1, cfg_timeout = None\<rparr>"
  have ex: "fst (entryBudgetExceeded ?env initialState (2 - 0) (2 - 0))"
    by (simp add: entryBudgetExceeded_def diffEnvOf_def shr1_def toInt32_def)
  have big: "min (2 - 0) (2 - 0) > scanLimit ?env * 64"
    by (simp add: diffEnvOf_def shr1_def toInt32_def)
  have st: "snd (entryBudgetExceeded ?env initialState (2 - 0) (2 - 0)) = initialState"
    by (simp add: entryBudgetExceeded_def diffEnvOf_def shr1_def toInt32_def)
  from findSnake_gives_up [OF ex big, of "\<lambda>st fA tA fB tB. None" "ascii ''ab''" "ascii ''cd''"]
    ex big st
  show ?thesis by simp
qed

section \<open>The final merge pass\<close>

lemma presentable_dashes_fuel1:
  "presentableDiff (Suc 0) frozenClock None initialState (ascii ''a---b'') (ascii ''x---y'') noConfig
     = Some ([Change 0 1 0 1, Change 4 5 4 5], initialState)"
  by code_simp

text \<open>
  C7, as stated, fails: \<^verbatim>\<open>presentableDiff("a---b", "x---y")\<close> returns two consecutive
  Spans whose gap is 3 units on both sides, and they are not merged.
\<close>

theorem presentable_gap3_counterexample:
  "map_option fst (presentableDiff (Suc 0) frozenClock None initialState
      (ascii ''a---b'') (ascii ''x---y'') noConfig) = Some [Change 0 1 0 1, Change 4 5 4 5]
   \<and> fromA (Change 4 5 4 5) - toA (Change 0 1 0 1) \<le> 3
   \<and> fromB (Change 4 5 4 5) - toB (Change 0 1 0 1) \<le> 3"
  by (simp add: presentable_dashes_fuel1)

text \<open>
  C7, amended. The final pass of \<^verbatim>\<open>presentableDiff\<close> merges two consecutive Spans when
  the gap between them is below 3 units (at most 2) on both sides. So in every list that
  \<^verbatim>\<open>presentableDiff\<close> returns, any two consecutive Spans are at least 3 units apart on
  the A side or on the B side.
\<close>

theorem presentable_gaps:
  assumes "presentableDiff fuel clk wordChar st a b config = Some (cs, st')"
    and "Suc i < length cs"
  shows "fromA (cs ! Suc i) - toA (cs ! i) \<ge> 3 \<or> fromB (cs ! Suc i) - toB (cs ! i) \<ge> 3"
proof -
  from assms(1) obtain cs0 where "cs = mergeAdjacent cs0 3"
    by (auto simp: presentableDiff_def makePresentable_def split: option.splits prod.splits)
  with assms(2) have "\<not> tooClose 3 (cs ! i) (cs ! Suc i)"
    by (simp add: mergeAdjacent_separated)
  then show ?thesis
    by (auto simp: tooClose_def)
qed

theorem presentable_gaps_witness:
  "presentableDiff (Suc 0) frozenClock None initialState (ascii ''a---b'') (ascii ''x---y'') noConfig
     = Some ([Change 0 1 0 1, Change 4 5 4 5], initialState)
   \<and> Suc 0 < length [Change 0 1 0 1, Change 4 5 4 5]
   \<and> (fromA ([Change 0 1 0 1, Change 4 5 4 5] ! Suc 0) - toA ([Change 0 1 0 1, Change 4 5 4 5] ! 0) \<ge> 3
      \<or> fromB ([Change 0 1 0 1, Change 4 5 4 5] ! Suc 0) - toB ([Change 0 1 0 1, Change 4 5 4 5] ! 0) \<ge> 3)"
proof -
  have len: "Suc 0 < length [Change 0 1 0 1, Change 4 5 4 5]" by simp
  from presentable_gaps [OF presentable_dashes_fuel1 len] presentable_dashes_fuel1 len
  show ?thesis by blast
qed

section \<open>Incremental update and full rebuild\<close>
























section \<open>Strings with unpaired surrogates\<close>

lemma diff_lone_low_fuel1:
  "diff (Suc 0) clk st [55357, 56832, 97, 56832] [97, 55357, 56832] noConfig
     = Some ([Change 0 0 0 1, Change 2 3 3 2], \<lparr>crude = False, ticks = ticks st\<rparr>)"
  by code_simp

text \<open>
  C1 fails on the code. For \<open>a\<close> = U+1F600, ``a'', and an unpaired low surrogate, and
  \<open>b\<close> = ``a'', U+1F600, \<^verbatim>\<open>diff\<close> returns two Spans of which the second ends before it
  starts in \<open>b\<close> (\<open>fromB = 3\<close>, \<open>toB = 2\<close>); the Spans do not cover the difference, and
  applying them to \<open>a\<close> gives a string of four units, not \<open>b\<close>.
\<close>

theorem diff_unpaired_low_surrogate:
  "diff (Suc n) clk st [55357, 56832, 97, 56832] [97, 55357, 56832] noConfig
     = Some ([Change 0 0 0 1, Change 2 3 3 2], \<lparr>crude = False, ticks = ticks st\<rparr>)
   \<and> toB (Change 2 3 3 2) < fromB (Change 2 3 3 2)
   \<and> \<not> spansCover [55357, 56832, 97, 56832] [97, 55357, 56832]
          [Change 0 0 0 1, Change 2 3 3 2] 0 0
   \<and> applySpans [55357, 56832, 97, 56832] [97, 55357, 56832]
          [Change 0 0 0 1, Change 2 3 3 2] 0 = [97, 55357, 56832, 56832]"
proof -
  have "diff (Suc 0 + n) clk st [55357, 56832, 97, 56832] [97, 55357, 56832] noConfig
          = Some ([Change 0 0 0 1, Change 2 3 3 2], \<lparr>crude = False, ticks = ticks st\<rparr>)"
    by (rule diff_mono [OF diff_lone_low_fuel1])
  moreover have "applySpans [55357, 56832, 97, 56832] [97, 55357, 56832]
          [Change 0 0 0 1, Change 2 3 3 2] 0 = [97, 55357, 56832, 56832]"
    by code_simp
  ultimately show ?thesis by simp
qed

lemma findDiff_body_emoji:
  "findDiff_body rec (diffEnvOf clk st0 noConfig) st [55357, 56832] 0 2 [55357, 97, 56832] 0 3
     = concatDiffs rec st 0 2 0 3 2 2 3 3"
  unfolding noConfig_def by code_simp

lemma findDiff_emoji_None:
  "findDiff n (diffEnvOf clk st0 noConfig) st [55357, 56832] 0 2 [55357, 97, 56832] 0 3 = None"
proof (induction n arbitrary: st)
  case 0
  show ?case by (simp add: findDiff_body_emoji concatDiffs_def)
next
  case (Suc n)
  show ?case by (simp add: findDiff_body_emoji concatDiffs_def Suc.IH)
qed

text \<open>
  C3 fails on the code. For \<open>a\<close> = U+1F600 and \<open>b\<close> = its high surrogate, ``a'', its low
  surrogate, \<^verbatim>\<open>findDiff\<close> calls itself on the very same ranges: at no recursion depth
  does \<^verbatim>\<open>diff\<close> or \<^verbatim>\<open>presentableDiff\<close> return.
\<close>

theorem diff_never_returns:
  "diff n clk st [55357, 56832] [55357, 97, 56832] noConfig = None
   \<and> presentableDiff n clk wordChar st [55357, 56832] [55357, 97, 56832] noConfig = None"
  by (simp add: presentableDiff_def diff_def findDiff_emoji_None)

lemma diff_lone_high_fuel0:
  "diff 0 clk st [55357] [55357, 56832] noConfig
     = Some ([Change 1 1 1 2], \<lparr>crude = False, ticks = ticks st\<rparr>)"
  by code_simp

text \<open>
  C9 fails on the code. For \<open>a\<close> = an unpaired high surrogate and \<open>b\<close> = U+1F600 (the
  same high surrogate and its low one), \<^verbatim>\<open>diff\<close> returns one Span that starts at
  offset 1 of \<open>b\<close>, between the two units of the pair.
\<close>

theorem diff_splits_surrogate_pair:
  "diff n clk st [55357] [55357, 56832] noConfig
     = Some ([Change 1 1 1 2], \<lparr>crude = False, ticks = ticks st\<rparr>)
   \<and> \<not> validIndex [55357, 56832] (fromB (Change 1 1 1 2))"
proof -
  have "diff (0 + n) clk st [55357] [55357, 56832] noConfig
          = Some ([Change 1 1 1 2], \<lparr>crude = False, ticks = ticks st\<rparr>)"
    by (rule diff_mono [OF diff_lone_high_fuel0])
  moreover have "\<not> validIndex [55357, 56832] (fromB (Change 1 1 1 2))"
    by code_simp
  ultimately show ?thesis by simp
qed

theorem diff_splits_surrogate_pair_witness:
  "map_option fst (diff 0 frozenClock initialState [55357] [55357, 56832] noConfig)
     = Some [Change 1 1 1 2]
   \<and> \<not> validIndex [55357, 56832] 1"
  using diff_splits_surrogate_pair [of 0 frozenClock initialState] by simp

end
